theory Spec2Isabelle
  imports Complex_Main "HOL-Library.Word"
begin

section \<open>The world of the tone-mapping library\<close>

text \<open>
  The library (\<^verbatim>\<open>src/Clib/HDR.cpp\<close>, \<^verbatim>\<open>src/Clib/shaderClass.cpp\<close>) is a sequence of
  calls into GLFW, glad and OpenGL around four file-level variables. The model passes an
  explicit \<open>world\<close>: the four variables, the two output streams, and the part of the
  GLFW/OpenGL state that the calls of the library change (windows with their contexts, the
  object names of each context). Every call into GLFW, glad or OpenGL is also appended to a
  trace, with its arguments, so that the order of the calls can be stated.

  What the outside answers during one call of an exported function (whether \<^verbatim>\<open>glfwInit\<close>
  succeeds, what the driver says about the framebuffer, what the compiler says about a
  shader source, the file system, the rendered pixels) is an \<open>env\<close> argument; the theorems
  quantify over it.

  \<^verbatim>\<open>float\<close> values are only handed to OpenGL, never computed with, on the host side; a
  finite \<^verbatim>\<open>float\<close> is modelled by the real number it denotes.
\<close>

subsection \<open>Arguments of the calls\<close>

datatype glenum =
    GL_ARRAY_BUFFER | GL_STATIC_DRAW | GL_FLOAT | GL_FALSE_enum
  | GL_TEXTURE_2D | GL_RGB16F | GL_RGB | GL_RGBA8 | GL_BGRA | GL_UNSIGNED_BYTE
  | GL_TEXTURE_MIN_FILTER | GL_TEXTURE_MAG_FILTER | GL_LINEAR
  | GL_FRAMEBUFFER | GL_COLOR_ATTACHMENT0
  | GL_FRAMEBUFFER_COMPLETE | GL_FRAMEBUFFER_UNDEFINED
  | GL_FRAMEBUFFER_INCOMPLETE_ATTACHMENT | GL_FRAMEBUFFER_INCOMPLETE_MISSING_ATTACHMENT
  | GL_FRAMEBUFFER_UNSUPPORTED | GL_ZERO
  | GL_VERTEX_SHADER | GL_FRAGMENT_SHADER | GL_COMPILE_STATUS | GL_LINK_STATUS
  | GL_TRIANGLES | GL_TEXTURE0
  | GLFW_VISIBLE | GLFW_FALSE | GLFW_CONTEXT_VERSION_MAJOR | GLFW_CONTEXT_VERSION_MINOR
  | GLFW_OPENGL_PROFILE | GLFW_OPENGL_CORE_PROFILE

datatype arg =
    I int                \<comment> \<open>a signed integer argument\<close>
  | U nat                \<comment> \<open>an object name, a window handle, a size or an offset\<close>
  | E glenum             \<comment> \<open>a named constant of the headers\<close>
  | F real               \<comment> \<open>a float\<close>
  | S string             \<comment> \<open>a C string\<close>
  | Floats "real list"   \<comment> \<open>a pointer to float data\<close>
  | Null                 \<comment> \<open>a null pointer\<close>
  | Ptr                  \<comment> \<open>a pointer to memory that the call fills, or a function pointer\<close>

datatype call = Call string "arg list"

fun call_name :: "call \<Rightarrow> string" where
  "call_name (Call f args) = f"

subsection \<open>OpenGL objects of one context\<close>

record shader_obj =
  sh_type :: glenum
  sh_source :: string
  sh_compiled :: bool
  sh_log :: string

record program_obj =
  pr_attached :: "nat list"
  pr_linked :: bool
  pr_log :: string

text \<open>
  The names of a context that have been handed out and not yet given to a
  \<^verbatim>\<open>glDelete*\<close> call. Names are never zero: the \<open>n\<close>-th name handed out is \<open>n\<close>.
\<close>

record gl_context =
  names_used :: nat
  textures :: "nat set"
  framebuffers :: "nat set"
  vertex_arrays :: "nat set"
  buffers :: "nat set"
  shaders :: "nat \<rightharpoonup> shader_obj"
  programs :: "nat \<rightharpoonup> program_obj"

definition empty_context :: gl_context where
  "empty_context =
     \<lparr>names_used = 0, textures = {}, framebuffers = {}, vertex_arrays = {}, buffers = {},
      shaders = Map.empty, programs = Map.empty\<rparr>"

subsection \<open>The world\<close>

text \<open>
  \<open>gWindow\<close>, \<open>gGLReady\<close>, \<open>quadVAO\<close>, \<open>quadVBO\<close> are the file-level variables of
  \<^verbatim>\<open>HDR.cpp\<close> (a null pointer is \<open>0\<close>). \<open>contexts\<close> maps each live window to the OpenGL
  context it owns; \<open>current\<close> is the window whose context is current (\<open>0\<close>: none).
\<close>

record world =
  gWindow :: nat
  gGLReady :: bool
  quadVAO :: nat
  quadVBO :: nat
  cout :: string
  cerr :: string
  glfw_up :: bool
  windows_created :: nat
  contexts :: "nat \<rightharpoonup> gl_context"
  current :: nat
  trace :: "call list"

text \<open>The state of a process that has just loaded the library.\<close>

definition world0 :: world where
  "world0 =
     \<lparr>gWindow = 0, gGLReady = False, quadVAO = 0, quadVBO = 0, cout = [], cerr = [],
      glfw_up = False, windows_created = 0, contexts = Map.empty, current = 0, trace = []\<rparr>"

record env =
  glfwInit_ok :: bool
  glfwCreateWindow_ok :: bool
  gladLoadGLLoader_ok :: bool
  framebuffer_status :: glenum
  current_path :: string
  parent_path :: "string \<Rightarrow> string"
  files :: "string \<rightharpoonup> string"
  compile_result :: "glenum \<Rightarrow> string \<Rightarrow> bool \<times> string"
  link_result :: "bool \<times> string"
  uniform_location :: "nat \<Rightarrow> string \<Rightarrow> int"
  literals_pooled :: bool
  uninit_hasCompiled :: int
  uninit_infoLog :: string
  rendered :: "nat \<Rightarrow> 8 word"

subsection \<open>Helpers of the model\<close>

definition call :: "string \<Rightarrow> arg list \<Rightarrow> world \<Rightarrow> world" where
  "call f args s = s\<lparr>trace := trace s @ [Call f args]\<rparr>"

definition current_context :: "world \<Rightarrow> gl_context option" where
  "current_context s = contexts s (current s)"

text \<open>An OpenGL call acts on the current context; with no current context it changes no object.\<close>

definition on_context :: "(gl_context \<Rightarrow> gl_context) \<Rightarrow> world \<Rightarrow> world" where
  "on_context f s =
     (case current_context s of
        None \<Rightarrow> s
      | Some c \<Rightarrow> s\<lparr>contexts := (contexts s)(current s \<mapsto> f c)\<rparr>)"

definition new_name :: "world \<Rightarrow> nat" where
  "new_name s = (case current_context s of None \<Rightarrow> 0 | Some c \<Rightarrow> Suc (names_used c))"

definition lookup_shader :: "world \<Rightarrow> nat \<Rightarrow> shader_obj option" where
  "lookup_shader s n = (case current_context s of None \<Rightarrow> None | Some c \<Rightarrow> shaders c n)"

definition lookup_program :: "world \<Rightarrow> nat \<Rightarrow> program_obj option" where
  "lookup_program s n = (case current_context s of None \<Rightarrow> None | Some c \<Rightarrow> programs c n)"

text \<open>A line end written to a stream: the newline character, for \<^verbatim>\<open>std::endl\<close> too.\<close>

definition endl :: string where
  "endl = [CHR 0x0A]"

definition cout_write :: "string \<Rightarrow> world \<Rightarrow> world" where
  "cout_write text s = s\<lparr>cout := cout s @ text\<rparr>"

definition sizeof_float :: nat where
  "sizeof_float = 4"

definition GL_FALSE :: int where
  "GL_FALSE = 0"

definition GL_TRUE :: int where
  "GL_TRUE = 1"

subsection \<open>GLFW and glad\<close>

text \<open>
  \<^verbatim>\<open>glfwInit\<close> returns true at once when the library is already initialised.
  \<^verbatim>\<open>glfwCreateWindow\<close> returns a new window with a context of its own, or null.
  \<^verbatim>\<open>glfwDestroyWindow\<close> destroys the window and its context (detaching it first when it is
  current). \<^verbatim>\<open>glfwTerminate\<close> destroys all remaining windows.
\<close>

definition glfwInit :: "env \<Rightarrow> world \<Rightarrow> bool \<times> world" where
  "glfwInit e s =
     (if glfw_up s then (True, call ''glfwInit'' [] s)
      else if glfwInit_ok e then (True, call ''glfwInit'' [] (s\<lparr>glfw_up := True\<rparr>))
      else (False, call ''glfwInit'' [] s))"

definition glfwWindowHint :: "glenum \<Rightarrow> arg \<Rightarrow> world \<Rightarrow> world" where
  "glfwWindowHint hint v s = call ''glfwWindowHint'' [E hint, v] s"

definition glfwCreateWindow :: "env \<Rightarrow> int \<Rightarrow> int \<Rightarrow> string \<Rightarrow> world \<Rightarrow> nat \<times> world" where
  "glfwCreateWindow e w h title s =
     (if glfw_up s \<and> glfwCreateWindow_ok e then
        (let win = Suc (windows_created s) in
         (win, call ''glfwCreateWindow'' [I w, I h, S title, Null, Null]
                 (s\<lparr>windows_created := win, contexts := (contexts s)(win \<mapsto> empty_context)\<rparr>)))
      else (0, call ''glfwCreateWindow'' [I w, I h, S title, Null, Null] s))"

definition glfwMakeContextCurrent :: "nat \<Rightarrow> world \<Rightarrow> world" where
  "glfwMakeContextCurrent win s = call ''glfwMakeContextCurrent'' [U win] (s\<lparr>current := win\<rparr>)"

definition gladLoadGLLoader :: "env \<Rightarrow> world \<Rightarrow> bool \<times> world" where
  "gladLoadGLLoader e s = (gladLoadGLLoader_ok e, call ''gladLoadGLLoader'' [Ptr] s)"

definition glfwDestroyWindow :: "nat \<Rightarrow> world \<Rightarrow> world" where
  "glfwDestroyWindow win s =
     call ''glfwDestroyWindow'' [U win]
       (s\<lparr>contexts := (contexts s)(win := None),
          current := (if current s = win then 0 else current s)\<rparr>)"

definition glfwTerminate :: "world \<Rightarrow> world" where
  "glfwTerminate s =
     call ''glfwTerminate'' [] (s\<lparr>contexts := Map.empty, current := 0, glfw_up := False\<rparr>)"

subsection \<open>OpenGL: names\<close>

definition glGenVertexArrays :: "world \<Rightarrow> nat \<times> world" where
  "glGenVertexArrays s =
     (let n = new_name s in
      (n, call ''glGenVertexArrays'' [I 1, U n]
            (on_context (\<lambda>c. c\<lparr>names_used := n, vertex_arrays := insert n (vertex_arrays c)\<rparr>) s)))"

definition glGenBuffers :: "world \<Rightarrow> nat \<times> world" where
  "glGenBuffers s =
     (let n = new_name s in
      (n, call ''glGenBuffers'' [I 1, U n]
            (on_context (\<lambda>c. c\<lparr>names_used := n, buffers := insert n (buffers c)\<rparr>) s)))"

definition glGenTextures :: "world \<Rightarrow> nat \<times> world" where
  "glGenTextures s =
     (let n = new_name s in
      (n, call ''glGenTextures'' [I 1, U n]
            (on_context (\<lambda>c. c\<lparr>names_used := n, textures := insert n (textures c)\<rparr>) s)))"

definition glGenFramebuffers :: "world \<Rightarrow> nat \<times> world" where
  "glGenFramebuffers s =
     (let n = new_name s in
      (n, call ''glGenFramebuffers'' [I 1, U n]
            (on_context (\<lambda>c. c\<lparr>names_used := n, framebuffers := insert n (framebuffers c)\<rparr>) s)))"

definition glDeleteTextures :: "nat \<Rightarrow> world \<Rightarrow> world" where
  "glDeleteTextures n s =
     call ''glDeleteTextures'' [I 1, U n] (on_context (\<lambda>c. c\<lparr>textures := textures c - {n}\<rparr>) s)"

definition glDeleteFramebuffers :: "nat \<Rightarrow> world \<Rightarrow> world" where
  "glDeleteFramebuffers n s =
     call ''glDeleteFramebuffers'' [I 1, U n]
       (on_context (\<lambda>c. c\<lparr>framebuffers := framebuffers c - {n}\<rparr>) s)"

subsection \<open>The fullscreen quad\<close>

definition quadVertices :: "real list" where
  "quadVertices =
     [-1,  1,   0, 1,
      -1, -1,   0, 0,
       1, -1,   1, 0,
      -1,  1,   0, 1,
       1, -1,   1, 0,
       1,  1,   1, 1]"

definition InitFullscreenQuad :: "world \<Rightarrow> world" where
  "InitFullscreenQuad s =
     (if quadVAO s \<noteq> 0 then s
      else
        let (vao, s) = glGenVertexArrays s;
            s = s\<lparr>quadVAO := vao\<rparr>;
            (vbo, s) = glGenBuffers s;
            s = s\<lparr>quadVBO := vbo\<rparr>;
            s = call ''glBindVertexArray'' [U (quadVAO s)] s;
            s = call ''glBindBuffer'' [E GL_ARRAY_BUFFER, U (quadVBO s)] s;
            s = call ''glBufferData''
                  [E GL_ARRAY_BUFFER, U (length quadVertices * sizeof_float),
                   Floats quadVertices, E GL_STATIC_DRAW] s;
            s = call ''glEnableVertexAttribArray'' [U 0] s;
            s = call ''glVertexAttribPointer''
                  [U 0, I 2, E GL_FLOAT, E GL_FALSE_enum, U (4 * sizeof_float), U 0] s;
            s = call ''glEnableVertexAttribArray'' [U 1] s;
            s = call ''glVertexAttribPointer''
                  [U 1, I 2, E GL_FLOAT, E GL_FALSE_enum, U (4 * sizeof_float),
                   U (2 * sizeof_float)] s
        in call ''glBindVertexArray'' [U 0] s)"

subsection \<open>The context\<close>

definition InitGLFW :: "env \<Rightarrow> world \<Rightarrow> bool \<times> world" where
  "InitGLFW e s =
     (if gGLReady s then (True, s)
      else
        let (ok, s) = glfwInit e s in
        if \<not> ok then (False, s)
        else
          let s = glfwWindowHint GLFW_VISIBLE (E GLFW_FALSE) s;
              s = glfwWindowHint GLFW_CONTEXT_VERSION_MAJOR (I 3) s;
              s = glfwWindowHint GLFW_CONTEXT_VERSION_MINOR (I 3) s;
              s = glfwWindowHint GLFW_OPENGL_PROFILE (E GLFW_OPENGL_CORE_PROFILE) s;
              (win, s) = glfwCreateWindow e 1 1 [] s;
              s = s\<lparr>gWindow := win\<rparr>
          in
            if gWindow s = 0 then (False, s)
            else
              let s = glfwMakeContextCurrent (gWindow s) s;
                  (loaded, s) = gladLoadGLLoader e s
              in
                if \<not> loaded then (False, s)
                else (True, s\<lparr>gGLReady := True\<rparr>))"

definition CleanupGLFW :: "world \<Rightarrow> world" where
  "CleanupGLFW s =
     (if gGLReady s then
        let s = glfwDestroyWindow (gWindow s) s;
            s = glfwTerminate s
        in s\<lparr>gGLReady := False\<rparr>
      else s)"

subsection \<open>OpenGL: shaders and programs\<close>

definition glCreateShader :: "glenum \<Rightarrow> world \<Rightarrow> nat \<times> world" where
  "glCreateShader ty s =
     (let n = new_name s in
      (n, call ''glCreateShader'' [E ty]
            (on_context (\<lambda>c. c\<lparr>names_used := n,
               shaders := (shaders c)(n \<mapsto>
                 \<lparr>sh_type = ty, sh_source = [], sh_compiled = False, sh_log = []\<rparr>)\<rparr>) s)))"

definition glShaderSource :: "nat \<Rightarrow> string \<Rightarrow> world \<Rightarrow> world" where
  "glShaderSource n src s =
     call ''glShaderSource'' [U n, I 1, S src, Null]
       (on_context (\<lambda>c. case shaders c n of
            None \<Rightarrow> c
          | Some sh \<Rightarrow> c\<lparr>shaders := (shaders c)(n \<mapsto> sh\<lparr>sh_source := src\<rparr>)\<rparr>) s)"

text \<open>What the compiler and the linker of the driver answer comes from the environment.\<close>

definition glCompileShader :: "env \<Rightarrow> nat \<Rightarrow> world \<Rightarrow> world" where
  "glCompileShader e n s =
     call ''glCompileShader'' [U n]
       (on_context (\<lambda>c. case shaders c n of
            None \<Rightarrow> c
          | Some sh \<Rightarrow>
              c\<lparr>shaders := (shaders c)(n \<mapsto>
                   sh\<lparr>sh_compiled := fst (compile_result e (sh_type sh) (sh_source sh)),
                      sh_log := snd (compile_result e (sh_type sh) (sh_source sh))\<rparr>)\<rparr>) s)"

text \<open>
  The queries write through a pointer. A query on a name that is no shader (no program)
  is an OpenGL error and leaves the pointed-to memory as it was, so each query takes the
  old content and returns the new one. \<^verbatim>\<open>glGet*InfoLog\<close> with a buffer of \<open>n\<close> bytes
  writes at most \<open>n - 1\<close> characters of the log and the terminating zero.
\<close>

definition glGetShaderiv :: "nat \<Rightarrow> glenum \<Rightarrow> int \<Rightarrow> world \<Rightarrow> int \<times> world" where
  "glGetShaderiv n pname old s =
     ((case lookup_shader s n of
         None \<Rightarrow> old
       | Some sh \<Rightarrow> if sh_compiled sh then GL_TRUE else GL_FALSE),
      call ''glGetShaderiv'' [U n, E pname, Ptr] s)"

definition glGetShaderInfoLog :: "nat \<Rightarrow> nat \<Rightarrow> string \<Rightarrow> world \<Rightarrow> string \<times> world" where
  "glGetShaderInfoLog n maxLength old s =
     ((case lookup_shader s n of
         None \<Rightarrow> old
       | Some sh \<Rightarrow> take (maxLength - 1) (sh_log sh)),
      call ''glGetShaderInfoLog'' [U n, U maxLength, Null, Ptr] s)"

definition glCreateProgram :: "world \<Rightarrow> nat \<times> world" where
  "glCreateProgram s =
     (let n = new_name s in
      (n, call ''glCreateProgram'' []
            (on_context (\<lambda>c. c\<lparr>names_used := n,
               programs := (programs c)(n \<mapsto>
                 \<lparr>pr_attached = [], pr_linked = False, pr_log = []\<rparr>)\<rparr>) s)))"

definition glAttachShader :: "nat \<Rightarrow> nat \<Rightarrow> world \<Rightarrow> world" where
  "glAttachShader p n s =
     call ''glAttachShader'' [U p, U n]
       (on_context (\<lambda>c. case programs c p of
            None \<Rightarrow> c
          | Some pr \<Rightarrow>
              c\<lparr>programs := (programs c)(p \<mapsto> pr\<lparr>pr_attached := pr_attached pr @ [n]\<rparr>)\<rparr>) s)"

definition glLinkProgram :: "env \<Rightarrow> nat \<Rightarrow> world \<Rightarrow> world" where
  "glLinkProgram e p s =
     call ''glLinkProgram'' [U p]
       (on_context (\<lambda>c. case programs c p of
            None \<Rightarrow> c
          | Some pr \<Rightarrow>
              c\<lparr>programs := (programs c)(p \<mapsto>
                   pr\<lparr>pr_linked := fst (link_result e), pr_log := snd (link_result e)\<rparr>)\<rparr>) s)"

definition glGetProgramiv :: "nat \<Rightarrow> glenum \<Rightarrow> int \<Rightarrow> world \<Rightarrow> int \<times> world" where
  "glGetProgramiv p pname old s =
     ((case lookup_program s p of
         None \<Rightarrow> old
       | Some pr \<Rightarrow> if pr_linked pr then GL_TRUE else GL_FALSE),
      call ''glGetProgramiv'' [U p, E pname, Ptr] s)"

definition glGetProgramInfoLog :: "nat \<Rightarrow> nat \<Rightarrow> string \<Rightarrow> world \<Rightarrow> string \<times> world" where
  "glGetProgramInfoLog p maxLength old s =
     ((case lookup_program s p of
         None \<Rightarrow> old
       | Some pr \<Rightarrow> take (maxLength - 1) (pr_log pr)),
      call ''glGetProgramInfoLog'' [U p, U maxLength, Null, Ptr] s)"

definition glDeleteShader :: "nat \<Rightarrow> world \<Rightarrow> world" where
  "glDeleteShader n s =
     call ''glDeleteShader'' [U n] (on_context (\<lambda>c. c\<lparr>shaders := (shaders c)(n := None)\<rparr>) s)"

definition glDeleteProgram :: "nat \<Rightarrow> world \<Rightarrow> world" where
  "glDeleteProgram p s =
     call ''glDeleteProgram'' [U p] (on_context (\<lambda>c. c\<lparr>programs := (programs c)(p := None)\<rparr>) s)"

subsection \<open>The shader class\<close>

definition get_file_contents :: "env \<Rightarrow> string \<Rightarrow> world \<Rightarrow> string \<times> world" where
  "get_file_contents e filename s =
     (case files e filename of
        None \<Rightarrow> ([], cout_write (''file not found: '' @ filename @ endl) s)
      | Some out \<Rightarrow> (out, s))"

text \<open>\<^verbatim>\<open>c_str()\<close> handed to a reader of C strings: the characters before the first zero.\<close>

definition c_str :: "string \<Rightarrow> string" where
  "c_str code = takeWhile (\<lambda>ch. ch \<noteq> CHR 0x00) code"

text \<open>
  \<^verbatim>\<open>type != "PROGRAM"\<close> compares two pointers. Literals of different content are different
  objects; whether the two \<^verbatim>\<open>"PROGRAM"\<close> literals of \<^verbatim>\<open>shaderClass.cpp\<close> are one object is
  up to the compiler (\<open>literals_pooled\<close>).
\<close>

definition pointers_differ :: "env \<Rightarrow> string \<Rightarrow> string \<Rightarrow> bool" where
  "pointers_differ e a b = (if a = b then \<not> literals_pooled e else True)"

definition compileErrors :: "env \<Rightarrow> nat \<Rightarrow> string \<Rightarrow> world \<Rightarrow> world" where
  "compileErrors e shader type s =
     (let hasCompiled = uninit_hasCompiled e;
          infoLog = uninit_infoLog e
      in
        if pointers_differ e type ''PROGRAM'' then
          let (hasCompiled, s) = glGetShaderiv shader GL_COMPILE_STATUS hasCompiled s in
          if hasCompiled = GL_FALSE then
            let (infoLog, s) = glGetShaderInfoLog shader 1024 infoLog s in
            cout_write (''SHADER_COMPILATION_ERROR for: '' @ type @ endl @ infoLog @ endl) s
          else s
        else
          let (hasCompiled, s) = glGetProgramiv shader GL_LINK_STATUS hasCompiled s in
          if hasCompiled = GL_FALSE then
            let (infoLog, s) = glGetProgramInfoLog shader 1024 infoLog s in
            cout_write (''SHADER_LINKING_ERROR for: '' @ type @ endl @ infoLog @ endl) s
          else s)"

text \<open>The constructor; its result is the member \<^verbatim>\<open>ID\<close> of the object built.\<close>

definition Shader :: "env \<Rightarrow> string \<Rightarrow> string \<Rightarrow> world \<Rightarrow> nat \<times> world" where
  "Shader e vertexFile fragmentFile s =
     (let (vertexCode, s) = get_file_contents e vertexFile s;
          (fragmentCode, s) = get_file_contents e fragmentFile s;
          vertexSource = c_str vertexCode;
          fragmentSource = c_str fragmentCode;
          (vertexShader, s) = glCreateShader GL_VERTEX_SHADER s;
          s = glShaderSource vertexShader vertexSource s;
          s = glCompileShader e vertexShader s;
          s = compileErrors e vertexShader ''VERTEX'' s;
          (fragmentShader, s) = glCreateShader GL_FRAGMENT_SHADER s;
          s = glShaderSource fragmentShader fragmentSource s;
          s = glCompileShader e fragmentShader s;
          s = compileErrors e fragmentShader ''FRAGMENT'' s;
          (ID, s) = glCreateProgram s;
          s = glAttachShader ID vertexShader s;
          s = glAttachShader ID fragmentShader s;
          s = glLinkProgram e ID s;
          s = compileErrors e ID ''PROGRAM'' s;
          s = glDeleteShader vertexShader s;
          s = glDeleteShader fragmentShader s
      in (ID, s))"

definition Activate :: "nat \<Rightarrow> world \<Rightarrow> world" where
  "Activate ID s = call ''glUseProgram'' [U ID] s"

definition Delete :: "nat \<Rightarrow> world \<Rightarrow> world" where
  "Delete ID s = glDeleteProgram ID s"

subsection \<open>The render pass\<close>

definition glCheckFramebufferStatus :: "env \<Rightarrow> glenum \<Rightarrow> world \<Rightarrow> glenum \<times> world" where
  "glCheckFramebufferStatus e target s =
     (framebuffer_status e, call ''glCheckFramebufferStatus'' [E target] s)"

definition glGetUniformLocation :: "env \<Rightarrow> nat \<Rightarrow> string \<Rightarrow> world \<Rightarrow> int \<times> world" where
  "glGetUniformLocation e p name s =
     (uniform_location e p name, call ''glGetUniformLocation'' [U p, S name] s)"

text \<open>
  \<^verbatim>\<open>glReadPixels\<close> with four bytes a pixel writes \<open>width * height * 4\<close> bytes, the
  rendered image, to the start of the buffer, and nothing when a size is negative. The
  list is the caller's buffer; the result is its new content.
\<close>

definition glReadPixels ::
  "env \<Rightarrow> int \<Rightarrow> int \<Rightarrow> int \<Rightarrow> int \<Rightarrow> glenum \<Rightarrow> glenum \<Rightarrow> 8 word list \<Rightarrow> world
     \<Rightarrow> 8 word list \<times> world" where
  "glReadPixels e x y width height format ty buf s =
     ((if width < 0 \<or> height < 0 then buf
       else map (\<lambda>i. if i < nat (width * height * 4) then rendered e i else buf ! i)
              [0..<length buf]),
      call ''glReadPixels'' [I x, I y, I width, I height, E format, E ty, Ptr] s)"

text \<open>The value of the literal \<^verbatim>\<open>2.2f\<close>: the float nearest to 2.2.\<close>

definition gamma_literal :: real where
  "gamma_literal = 9227469 / 4194304"

definition backslash :: char where
  "backslash = CHR 0x5C"

definition UploadToGL ::
  "env \<Rightarrow> real list \<Rightarrow> int \<Rightarrow> int \<Rightarrow> 8 word list \<Rightarrow> real \<Rightarrow> real \<Rightarrow> world
     \<Rightarrow> 8 word list \<times> world" where
  "UploadToGL e linearRGB width height outputBGRA exposure whitePoint s =
     (let (ok, s) = InitGLFW e s in
      if \<not> ok then (outputBGRA, s)
      else
        let s = InitFullscreenQuad s;
            s = glfwMakeContextCurrent (gWindow s) s;
            (hdrTex, s) = glGenTextures s;
            s = call ''glBindTexture'' [E GL_TEXTURE_2D, U hdrTex] s;
            s = call ''glTexImage2D''
                  [E GL_TEXTURE_2D, I 0, E GL_RGB16F, I width, I height, I 0, E GL_RGB,
                   E GL_FLOAT, Floats linearRGB] s;
            s = call ''glTexParameteri'' [E GL_TEXTURE_2D, E GL_TEXTURE_MIN_FILTER, E GL_LINEAR] s;
            s = call ''glTexParameteri'' [E GL_TEXTURE_2D, E GL_TEXTURE_MAG_FILTER, E GL_LINEAR] s;
            (fbo, s) = glGenFramebuffers s;
            s = call ''glBindFramebuffer'' [E GL_FRAMEBUFFER, U fbo] s;
            (colorTex, s) = glGenTextures s;
            s = call ''glBindTexture'' [E GL_TEXTURE_2D, U colorTex] s;
            s = call ''glTexImage2D''
                  [E GL_TEXTURE_2D, I 0, E GL_RGBA8, I width, I height, I 0, E GL_BGRA,
                   E GL_UNSIGNED_BYTE, Null] s;
            s = call ''glTexParameteri'' [E GL_TEXTURE_2D, E GL_TEXTURE_MIN_FILTER, E GL_LINEAR] s;
            s = call ''glTexParameteri'' [E GL_TEXTURE_2D, E GL_TEXTURE_MAG_FILTER, E GL_LINEAR] s;
            s = call ''glBindTexture'' [E GL_TEXTURE_2D, U 0] s;
            s = call ''glFramebufferTexture2D''
                  [E GL_FRAMEBUFFER, E GL_COLOR_ATTACHMENT0, E GL_TEXTURE_2D, U colorTex, I 0] s;
            (status, s) = glCheckFramebufferStatus e GL_FRAMEBUFFER s
        in
          if status \<noteq> GL_FRAMEBUFFER_COMPLETE then (outputBGRA, s)
          else
            let s = call ''glBindFramebuffer'' [E GL_FRAMEBUFFER, U fbo] s;
                s = call ''glViewport'' [I 0, I 0, I width, I height] s;
                p = parent_path e (parent_path e (parent_path e (parent_path e (current_path e))));
                path_vert = p @ [backslash] @ ''Clib'' @ [backslash] @ ''default.vert'';
                path_frag = p @ [backslash] @ ''Clib'' @ [backslash] @ ''default.frag'';
                (shaderProgram, s) = Shader e path_vert path_frag s;
                s = Activate shaderProgram s;
                (loc, s) = glGetUniformLocation e shaderProgram ''tex0'' s;
                s = call ''glUniform1i'' [I loc, I 0] s;
                (loc, s) = glGetUniformLocation e shaderProgram ''exposure'' s;
                s = call ''glUniform1f'' [I loc, F exposure] s;
                (loc, s) = glGetUniformLocation e shaderProgram ''whitePoint'' s;
                s = call ''glUniform1f'' [I loc, F whitePoint] s;
                (loc, s) = glGetUniformLocation e shaderProgram ''gamma'' s;
                s = call ''glUniform1f'' [I loc, F gamma_literal] s;
                s = call ''glBindVertexArray'' [U (quadVAO s)] s;
                s = call ''glActiveTexture'' [E GL_TEXTURE0] s;
                s = call ''glBindTexture'' [E GL_TEXTURE_2D, U hdrTex] s;
                s = call ''glDrawArrays'' [E GL_TRIANGLES, I 0, I 6] s;
                s = call ''glBindVertexArray'' [U 0] s;
                (outputBGRA, s) =
                  glReadPixels e 0 0 width height GL_BGRA GL_UNSIGNED_BYTE outputBGRA s;
                s = glDeleteTextures hdrTex s;
                s = glDeleteTextures colorTex s;
                s = glDeleteFramebuffers fbo s;
                s = Delete shaderProgram s
            in (outputBGRA, s))"

section \<open>Notions used in the statements\<close>

text \<open>The calls made between two states of one run.\<close>

definition new_calls :: "world \<Rightarrow> world \<Rightarrow> call list" where
  "new_calls s s' = drop (length (trace s)) (trace s')"

text \<open>The status and log queries of \<^verbatim>\<open>compileErrors\<close>; they change nothing.\<close>

definition is_query :: "call \<Rightarrow> bool" where
  "is_query c =
     (call_name c \<in>
        {''glGetShaderiv'', ''glGetShaderInfoLog'', ''glGetProgramiv'', ''glGetProgramInfoLog''})"

definition queries :: "env \<Rightarrow> nat \<Rightarrow> string \<Rightarrow> world \<Rightarrow> call list" where
  "queries e n ty s = new_calls s (compileErrors e n ty s)"

text \<open>What the loader returns for a path, and what it prints.\<close>

definition loaded :: "env \<Rightarrow> string \<Rightarrow> string" where
  "loaded e f = (case files e f of None \<Rightarrow> [] | Some text \<Rightarrow> text)"

definition loader_output :: "env \<Rightarrow> string \<Rightarrow> string" where
  "loader_output e f =
     (case files e f of None \<Rightarrow> ''file not found: '' @ f @ endl | Some text \<Rightarrow> [])"

text \<open>The calls of a complete initialisation that creates the window \<open>win\<close>.\<close>

definition init_sequence :: "nat \<Rightarrow> call list" where
  "init_sequence win =
     [Call ''glfwInit'' [],
      Call ''glfwWindowHint'' [E GLFW_VISIBLE, E GLFW_FALSE],
      Call ''glfwWindowHint'' [E GLFW_CONTEXT_VERSION_MAJOR, I 3],
      Call ''glfwWindowHint'' [E GLFW_CONTEXT_VERSION_MINOR, I 3],
      Call ''glfwWindowHint'' [E GLFW_OPENGL_PROFILE, E GLFW_OPENGL_CORE_PROFILE],
      Call ''glfwCreateWindow'' [I 1, I 1, S [], Null, Null],
      Call ''glfwMakeContextCurrent'' [U win],
      Call ''gladLoadGLLoader'' [Ptr]]"

subsection \<open>Sample environments\<close>

text \<open>
  An environment in which GLFW, glad and the framebuffer are fine, the shader files are
  missing, the compiler rejects an empty source and the linker fails; and variants of it.
\<close>

definition sample_parent :: "string \<Rightarrow> string" where
  "sample_parent p = rev (drop 1 (dropWhile (\<lambda>ch. ch \<noteq> CHR ''/'') (rev p)))"

definition env_ok :: env where
  "env_ok =
     \<lparr>glfwInit_ok = True, glfwCreateWindow_ok = True, gladLoadGLLoader_ok = True,
      framebuffer_status = GL_FRAMEBUFFER_COMPLETE,
      current_path = ''/r/a/b/c/d'',
      parent_path = sample_parent,
      files = Map.empty,
      compile_result = (\<lambda>ty src. if src = [] then (False, ''no main'') else (True, [])),
      link_result = (False, ''link failed''),
      uniform_location = (\<lambda>p name. 0),
      literals_pooled = True,
      uninit_hasCompiled = 0,
      uninit_infoLog = [],
      rendered = (\<lambda>i. 255)\<rparr>"

definition env_no_glad :: env where
  "env_no_glad = env_ok\<lparr>gladLoadGLLoader_ok := False\<rparr>"

text \<open>The world after a successful initialisation in a fresh process.\<close>

definition world_ready :: world where
  "world_ready = snd (InitGLFW env_ok world0)"

definition env_incomplete :: env where
  "env_incomplete = env_ok\<lparr>framebuffer_status := GL_FRAMEBUFFER_UNSUPPORTED\<rparr>"

subsection \<open>The geometry of the quad\<close>

text \<open>How OpenGL reads an attribute of vertex i from float data: stride and offset in bytes.\<close>

definition attribute :: "real list \<Rightarrow> nat \<Rightarrow> nat \<Rightarrow> nat \<Rightarrow> nat \<Rightarrow> real list" where
  "attribute data stride offset n i =
     take n (drop ((i * stride + offset) div sizeof_float) data)"

definition quad_positions :: "(real \<times> real) list" where
  "quad_positions =
     map (\<lambda>i. case attribute quadVertices (4 * sizeof_float) 0 2 i of
                 [x, y] \<Rightarrow> (x, y) | _ \<Rightarrow> (0, 0)) [0..<6]"

text \<open>
  Twice the signed area of the triangle \<open>a b p\<close>: positive when the three points turn
  counter-clockwise. A point is inside a counter-clockwise triangle when it is on the left
  of, or on, each edge.
\<close>

definition orient :: "real \<times> real \<Rightarrow> real \<times> real \<Rightarrow> real \<times> real \<Rightarrow> real" where
  "orient a b p = (fst b - fst a) * (snd p - snd a) - (snd b - snd a) * (fst p - fst a)"

definition inside :: "real \<times> real \<Rightarrow> real \<times> real \<Rightarrow> real \<times> real \<Rightarrow> real \<times> real \<Rightarrow> bool" where
  "inside a b c p = (0 \<le> orient a b p \<and> 0 \<le> orient b c p \<and> 0 \<le> orient c a p)"

text \<open>The calls of an effective \<^verbatim>\<open>InitFullscreenQuad\<close> that gets the names \<open>vao\<close> and \<open>vbo\<close>.\<close>

definition quad_calls :: "nat \<Rightarrow> nat \<Rightarrow> call list" where
  "quad_calls vao vbo =
     [Call ''glGenVertexArrays'' [I 1, U vao],
      Call ''glGenBuffers'' [I 1, U vbo],
      Call ''glBindVertexArray'' [U vao],
      Call ''glBindBuffer'' [E GL_ARRAY_BUFFER, U vbo],
      Call ''glBufferData'' [E GL_ARRAY_BUFFER, U (6 * (4 * sizeof_float)), Floats quadVertices, E GL_STATIC_DRAW],
      Call ''glEnableVertexAttribArray'' [U 0],
      Call ''glVertexAttribPointer'' [U 0, I 2, E GL_FLOAT, E GL_FALSE_enum, U (4 * sizeof_float), U 0],
      Call ''glEnableVertexAttribArray'' [U 1],
      Call ''glVertexAttribPointer'' [U 1, I 2, E GL_FLOAT, E GL_FALSE_enum, U (4 * sizeof_float), U (2 * sizeof_float)],
      Call ''glBindVertexArray'' [U 0]]"

subsection \<open>Diagnostics and call names\<close>

text \<open>
  The diagnostic of a stage whose compilation failed, and of a failed link: the heading,
  the label, and the part of the log that fits the buffer of 1024 bytes with its
  terminating zero.
\<close>

definition stage_diagnostic :: "env \<Rightarrow> glenum \<Rightarrow> string \<Rightarrow> string \<Rightarrow> string" where
  "stage_diagnostic e ty label src =
     (if fst (compile_result e ty src) then []
      else ''SHADER_COMPILATION_ERROR for: '' @ label @ endl @
           take 1023 (snd (compile_result e ty src)) @ endl)"

definition link_diagnostic :: "env \<Rightarrow> string" where
  "link_diagnostic e =
     (if fst (link_result e) then []
      else ''SHADER_LINKING_ERROR for: '' @ ''PROGRAM'' @ endl @
           take 1023 (snd (link_result e)) @ endl)"

text \<open>The vertex array names of the current context.\<close>

definition current_vertex_arrays :: "world \<Rightarrow> nat set" where
  "current_vertex_arrays s = (case current_context s of None \<Rightarrow> {} | Some c \<Rightarrow> vertex_arrays c)"

text \<open>The OpenGL functions that the shader constructor calls.\<close>

definition shader_call_names :: "string set" where
  "shader_call_names =
     {''glCreateShader'', ''glShaderSource'', ''glCompileShader'', ''glCreateProgram'',
      ''glAttachShader'', ''glLinkProgram'', ''glDeleteShader'',
      ''glGetShaderiv'', ''glGetShaderInfoLog'', ''glGetProgramiv'', ''glGetProgramInfoLog''}"

subsection \<open>Notions for the render pass\<close>

text \<open>The calls that create, bind or draw vertex arrays.\<close>

definition vao_draw_names :: "string set" where
  "vao_draw_names = {''glGenVertexArrays'', ''glBindVertexArray'', ''glDrawArrays''}"

text \<open>What the shader constructor does to a context.\<close>

definition after_shader :: "env \<Rightarrow> gl_context \<Rightarrow> gl_context" where
  "after_shader e c =
     c\<lparr>names_used := names_used c + 3,
       shaders := (shaders c)(names_used c + 1 := None, names_used c + 2 := None),
       programs := (programs c)(names_used c + 3 \<mapsto>
         \<lparr>pr_attached = [names_used c + 1, names_used c + 2],
          pr_linked = fst (link_result e), pr_log = snd (link_result e)\<rparr>)\<rparr>"

text \<open>The world after one complete render pass in a fresh process.\<close>

definition world_drawn :: world where
  "world_drawn = snd (UploadToGL env_ok [0, 0, 0] 1 1 [0, 0, 0, 0] 1 1 world0)"

text \<open>
  The calls of the shader constructor other than the queries of \<^verbatim>\<open>compileErrors\<close>, in
  order, when \<open>n\<close> names were used before and the two sources are as given.
\<close>

definition shader_steps :: "nat \<Rightarrow> string \<Rightarrow> string \<Rightarrow> call list" where
  "shader_steps n vertexSource fragmentSource =
     [Call ''glCreateShader'' [E GL_VERTEX_SHADER],
      Call ''glShaderSource'' [U (n + 1), I 1, S vertexSource, Null],
      Call ''glCompileShader'' [U (n + 1)],
      Call ''glCreateShader'' [E GL_FRAGMENT_SHADER],
      Call ''glShaderSource'' [U (n + 2), I 1, S fragmentSource, Null],
      Call ''glCompileShader'' [U (n + 2)],
      Call ''glCreateProgram'' [],
      Call ''glAttachShader'' [U (n + 3), U (n + 1)],
      Call ''glAttachShader'' [U (n + 3), U (n + 2)],
      Call ''glLinkProgram'' [U (n + 3)],
      Call ''glDeleteShader'' [U (n + 1)],
      Call ''glDeleteShader'' [U (n + 2)]]"

section \<open>Basic facts\<close>

subsection \<open>What the helpers leave alone\<close>

lemma call_fields [simp]:
  "gWindow (call f a s) = gWindow s"
  "gGLReady (call f a s) = gGLReady s"
  "quadVAO (call f a s) = quadVAO s"
  "quadVBO (call f a s) = quadVBO s"
  "cout (call f a s) = cout s"
  "cerr (call f a s) = cerr s"
  "glfw_up (call f a s) = glfw_up s"
  "windows_created (call f a s) = windows_created s"
  "contexts (call f a s) = contexts s"
  "current (call f a s) = current s"
  "trace (call f a s) = trace s @ [Call f a]"
  "current_context (call f a s) = current_context s"
  by (simp_all add: call_def current_context_def)

lemma on_context_fields [simp]:
  "gWindow (on_context g s) = gWindow s"
  "gGLReady (on_context g s) = gGLReady s"
  "quadVAO (on_context g s) = quadVAO s"
  "quadVBO (on_context g s) = quadVBO s"
  "cout (on_context g s) = cout s"
  "cerr (on_context g s) = cerr s"
  "glfw_up (on_context g s) = glfw_up s"
  "windows_created (on_context g s) = windows_created s"
  "current (on_context g s) = current s"
  "trace (on_context g s) = trace s"
  "current_context (on_context g s) = map_option g (current_context s)"
  by (simp_all add: on_context_def current_context_def split: option.split)

lemma cout_write_fields [simp]:
  "gWindow (cout_write t s) = gWindow s"
  "gGLReady (cout_write t s) = gGLReady s"
  "quadVAO (cout_write t s) = quadVAO s"
  "quadVBO (cout_write t s) = quadVBO s"
  "cout (cout_write t s) = cout s @ t"
  "cerr (cout_write t s) = cerr s"
  "glfw_up (cout_write t s) = glfw_up s"
  "windows_created (cout_write t s) = windows_created s"
  "contexts (cout_write t s) = contexts s"
  "current (cout_write t s) = current s"
  "trace (cout_write t s) = trace s"
  "current_context (cout_write t s) = current_context s"
  by (simp_all add: cout_write_def current_context_def)

lemma on_context_contexts:
  "contexts (on_context g s) w =
     (if w = current s then map_option g (current_context s) else contexts s w)"
  by (simp add: on_context_def current_context_def split: option.split)

lemmas gl_defs = glGenVertexArrays_def glGenBuffers_def glGenTextures_def glGenFramebuffers_def
  glDeleteTextures_def glDeleteFramebuffers_def glCreateShader_def glShaderSource_def
  glCompileShader_def glGetShaderiv_def glGetShaderInfoLog_def glCreateProgram_def
  glAttachShader_def glLinkProgram_def glGetProgramiv_def glGetProgramInfoLog_def
  glDeleteShader_def glDeleteProgram_def glCheckFramebufferStatus_def glGetUniformLocation_def
  glReadPixels_def new_name_def lookup_shader_def lookup_program_def

lemma compileErrors_fields [simp]:
  "gWindow (compileErrors e n ty s) = gWindow s"
  "gGLReady (compileErrors e n ty s) = gGLReady s"
  "quadVAO (compileErrors e n ty s) = quadVAO s"
  "quadVBO (compileErrors e n ty s) = quadVBO s"
  "cerr (compileErrors e n ty s) = cerr s"
  "glfw_up (compileErrors e n ty s) = glfw_up s"
  "windows_created (compileErrors e n ty s) = windows_created s"
  "contexts (compileErrors e n ty s) = contexts s"
  "current (compileErrors e n ty s) = current s"
  "current_context (compileErrors e n ty s) = current_context s"
  by (simp_all add: compileErrors_def gl_defs Let_def)

lemma compileErrors_trace:
  "\<exists>q. trace (compileErrors e n ty s) = trace s @ q \<and> list_all is_query q"
  by (simp add: compileErrors_def gl_defs Let_def is_query_def)

lemmas glfw_defs = glfwInit_def glfwWindowHint_def glfwCreateWindow_def
  glfwMakeContextCurrent_def gladLoadGLLoader_def glfwDestroyWindow_def glfwTerminate_def

subsection \<open>The context\<close>

lemma InitGLFW_ready: "gGLReady s \<Longrightarrow> InitGLFW e s = (True, s)"
  by (simp add: InitGLFW_def)

lemma InitGLFW_success_ready: "fst (InitGLFW e s) \<Longrightarrow> gGLReady (snd (InitGLFW e s))"
  by (simp add: InitGLFW_def glfw_defs Let_def split: if_splits)

lemma CleanupGLFW_not_ready: "\<not> gGLReady s \<Longrightarrow> CleanupGLFW s = s"
  by (simp add: CleanupGLFW_def)

lemma CleanupGLFW_clears: "\<not> gGLReady (CleanupGLFW s)"
  by (simp add: CleanupGLFW_def glfw_defs Let_def)

lemma InitGLFW_starts_with_glfwInit:
  "\<not> gGLReady s \<Longrightarrow> \<exists>rest. trace (snd (InitGLFW e s)) = trace s @ Call ''glfwInit'' [] # rest"
  by (simp add: InitGLFW_def glfw_defs Let_def)

lemma InitGLFW_failure_not_ready:
  "\<not> fst (InitGLFW e s) \<Longrightarrow> \<not> gGLReady (snd (InitGLFW e s))"
  by (simp add: InitGLFW_def glfw_defs Let_def split: if_splits)

lemma InitGLFW_full:
  "\<not> gGLReady s \<Longrightarrow> glfw_up s \<or> glfwInit_ok e \<Longrightarrow> glfwCreateWindow_ok e \<Longrightarrow>
   gladLoadGLLoader_ok e \<Longrightarrow>
   InitGLFW e s =
     (True, s\<lparr>gWindow := Suc (windows_created s), gGLReady := True, glfw_up := True,
              windows_created := Suc (windows_created s),
              contexts := (contexts s)(Suc (windows_created s) \<mapsto> empty_context),
              current := Suc (windows_created s),
              trace := trace s @ init_sequence (Suc (windows_created s))\<rparr>)"
  by (auto simp add: InitGLFW_def glfw_defs Let_def call_def init_sequence_def)

lemma InitGLFW_glad_fails:
  assumes "\<not> gGLReady s" "glfw_up s \<or> glfwInit_ok e" "glfwCreateWindow_ok e"
    "\<not> gladLoadGLLoader_ok e"
  shows "InitGLFW e s =
     (False, s\<lparr>gWindow := Suc (windows_created s), glfw_up := True,
              windows_created := Suc (windows_created s),
              contexts := (contexts s)(Suc (windows_created s) \<mapsto> empty_context),
              current := Suc (windows_created s),
              trace := trace s @ init_sequence (Suc (windows_created s))\<rparr>)"
  using assms by (auto simp add: InitGLFW_def glfw_defs Let_def call_def init_sequence_def)

lemma InitGLFW_window_created:
  assumes "\<not> gGLReady s" "glfw_up s" "glfwCreateWindow_ok e"
  shows "gWindow (snd (InitGLFW e s)) = Suc (windows_created s)"
    "contexts (snd (InitGLFW e s)) = (contexts s)(Suc (windows_created s) \<mapsto> empty_context)"
    "gGLReady (snd (InitGLFW e s)) = gladLoadGLLoader_ok e"
  using assms by (auto simp add: InitGLFW_def glfw_defs Let_def call_def)

lemma CleanupGLFW_ready:
  "gGLReady s \<Longrightarrow>
   contexts (CleanupGLFW s) = Map.empty \<and>
   new_calls s (CleanupGLFW s) =
     [Call ''glfwDestroyWindow'' [U (gWindow s)], Call ''glfwTerminate'' []]"
  by (simp add: CleanupGLFW_def glfw_defs Let_def new_calls_def)

subsection \<open>The shader class\<close>

lemma compileErrors_trace_eq:
  "trace (compileErrors e n ty s) = trace s @ queries e n ty s"
proof -
  obtain q where "trace (compileErrors e n ty s) = trace s @ q"
    using compileErrors_trace [of e n ty s] by blast
  then show ?thesis by (simp add: queries_def new_calls_def)
qed

lemma queries_are_queries [simp]: "filter (\<lambda>c. \<not> is_query c) (queries e n ty s) = []"
proof -
  obtain q where q: "trace (compileErrors e n ty s) = trace s @ q" "list_all is_query q"
    using compileErrors_trace [of e n ty s] by blast
  have "queries e n ty s = q" using q(1) by (simp add: queries_def new_calls_def)
  with q(2) show ?thesis by (simp add: filter_empty_conv list_all_iff)
qed

declare compileErrors_trace_eq [simp]

lemma is_query_Call [simp]:
  "is_query (Call f a) =
     (f \<in> {''glGetShaderiv'', ''glGetShaderInfoLog'', ''glGetProgramiv'', ''glGetProgramInfoLog''})"
  by (simp add: is_query_def)

lemma get_file_contents_eq:
  "get_file_contents e f s = (loaded e f, cout_write (loader_output e f) s)"
  by (simp add: get_file_contents_def loaded_def loader_output_def cout_write_def split: option.split)

lemma compileErrors_cout_shader:
  "pointers_differ e ty ''PROGRAM'' \<Longrightarrow>
   cout (compileErrors e n ty s) =
     cout s @
     (case lookup_shader s n of
        None \<Rightarrow>
          if uninit_hasCompiled e = GL_FALSE
          then ''SHADER_COMPILATION_ERROR for: '' @ ty @ endl @ uninit_infoLog e @ endl else []
      | Some sh \<Rightarrow>
          if sh_compiled sh then []
          else ''SHADER_COMPILATION_ERROR for: '' @ ty @ endl @ take 1023 (sh_log sh) @ endl)"
  by (simp add: compileErrors_def gl_defs Let_def GL_FALSE_def GL_TRUE_def split: option.split)

lemma compileErrors_cout_program:
  "\<not> pointers_differ e ty ''PROGRAM'' \<Longrightarrow>
   cout (compileErrors e n ty s) =
     cout s @
     (case lookup_program s n of
        None \<Rightarrow>
          if uninit_hasCompiled e = GL_FALSE
          then ''SHADER_LINKING_ERROR for: '' @ ty @ endl @ uninit_infoLog e @ endl else []
      | Some pr \<Rightarrow>
          if pr_linked pr then []
          else ''SHADER_LINKING_ERROR for: '' @ ty @ endl @ take 1023 (pr_log pr) @ endl)"
  by (simp add: compileErrors_def gl_defs Let_def GL_FALSE_def GL_TRUE_def split: option.split)

lemmas shader_unfold = Shader_def get_file_contents_eq gl_defs Let_def

lemma Shader_fields [simp]:
  "gWindow (snd (Shader e vf ff s)) = gWindow s"
  "gGLReady (snd (Shader e vf ff s)) = gGLReady s"
  "quadVAO (snd (Shader e vf ff s)) = quadVAO s"
  "quadVBO (snd (Shader e vf ff s)) = quadVBO s"
  "cerr (snd (Shader e vf ff s)) = cerr s"
  "glfw_up (snd (Shader e vf ff s)) = glfw_up s"
  "windows_created (snd (Shader e vf ff s)) = windows_created s"
  "current (snd (Shader e vf ff s)) = current s"
  by (cases "current_context s"; simp add: shader_unfold)+

lemma Shader_ID:
  "current_context s = Some c \<Longrightarrow> fst (Shader e vf ff s) = names_used c + 3"
  by (simp add: shader_unfold)

lemma Shader_calls:
  "current_context s = Some c \<Longrightarrow>
   filter (\<lambda>c. \<not> is_query c) (new_calls s (snd (Shader e vf ff s))) =
     [Call ''glCreateShader'' [E GL_VERTEX_SHADER],
      Call ''glShaderSource'' [U (names_used c + 1), I 1, S (c_str (loaded e vf)), Null],
      Call ''glCompileShader'' [U (names_used c + 1)],
      Call ''glCreateShader'' [E GL_FRAGMENT_SHADER],
      Call ''glShaderSource'' [U (names_used c + 2), I 1, S (c_str (loaded e ff)), Null],
      Call ''glCompileShader'' [U (names_used c + 2)],
      Call ''glCreateProgram'' [],
      Call ''glAttachShader'' [U (names_used c + 3), U (names_used c + 1)],
      Call ''glAttachShader'' [U (names_used c + 3), U (names_used c + 2)],
      Call ''glLinkProgram'' [U (names_used c + 3)],
      Call ''glDeleteShader'' [U (names_used c + 1)],
      Call ''glDeleteShader'' [U (names_used c + 2)]]"
  by (simp add: shader_unfold new_calls_def)

lemma Shader_context:
  "current_context s = Some c \<Longrightarrow>
   \<exists>c'. current_context (snd (Shader e vf ff s)) = Some c' \<and>
     names_used c' = names_used c + 3 \<and>
     textures c' = textures c \<and> framebuffers c' = framebuffers c \<and>
     vertex_arrays c' = vertex_arrays c \<and> buffers c' = buffers c \<and>
     shaders c' = (shaders c)(names_used c + 1 := None, names_used c + 2 := None) \<and>
     programs c' = (programs c)(names_used c + 3 \<mapsto>
               \<lparr>pr_attached = [names_used c + 1, names_used c + 2],
                pr_linked = fst (link_result e), pr_log = snd (link_result e)\<rparr>)"
  by (simp add: shader_unfold eval_nat_numeral)

subsection \<open>The fullscreen quad\<close>

lemma current_context_globals [simp]:
  "current_context (s\<lparr>quadVAO := a\<rparr>) = current_context s"
  "current_context (s\<lparr>quadVBO := a\<rparr>) = current_context s"
  "current_context (s\<lparr>gWindow := a\<rparr>) = current_context s"
  "current_context (s\<lparr>gGLReady := b\<rparr>) = current_context s"
  by (simp_all add: current_context_def)

lemma InitFullscreenQuad_guard: "quadVAO s \<noteq> 0 \<Longrightarrow> InitFullscreenQuad s = s"
  by (simp add: InitFullscreenQuad_def)

lemma InitFullscreenQuad_first:
  assumes "quadVAO s = 0" "current_context s = Some c"
  shows "quadVAO (InitFullscreenQuad s) = names_used c + 1"
    "quadVBO (InitFullscreenQuad s) = names_used c + 2"
    "new_calls s (InitFullscreenQuad s) = quad_calls (names_used c + 1) (names_used c + 2)"
    "map_option vertex_arrays (current_context (InitFullscreenQuad s)) = Some (insert (names_used c + 1) (vertex_arrays c))"
  using assms
  by (simp_all add: InitFullscreenQuad_def gl_defs Let_def new_calls_def quad_calls_def
      quadVertices_def sizeof_float_def)

lemma InitFullscreenQuad_twice:
  assumes "current_context s = Some c"
  shows "InitFullscreenQuad (InitFullscreenQuad s) = InitFullscreenQuad s"
proof (cases "quadVAO s = 0")
  case True
  then have "quadVAO (InitFullscreenQuad s) \<noteq> 0"
    using InitFullscreenQuad_first(1) [OF True assms] by simp
  then show ?thesis by (rule InitFullscreenQuad_guard)
next
  case False
  then show ?thesis by (simp add: InitFullscreenQuad_guard)
qed

lemma quad_positions_eq:
  "quad_positions = [(-1, 1), (-1, -1), (1, -1), (-1, 1), (1, -1), (1, 1)]"
  by (simp add: quad_positions_def attribute_def quadVertices_def sizeof_float_def upt_rec)

lemma quad_uvs:
  "map (attribute quadVertices (4 * sizeof_float) (2 * sizeof_float) 2) [0..<6] =
     [[0, 1], [0, 0], [1, 0], [0, 1], [1, 0], [1, 1]]"
  by (simp add: attribute_def quadVertices_def sizeof_float_def upt_rec)

lemma quad_ccw:
  "0 < orient (-1, 1) (-1, -1) (1, -1)" "0 < orient (-1, 1) (1, -1) (1, 1)"
  by (simp_all add: orient_def)

lemma quad_covers:
  "(inside (-1, 1) (-1, -1) (1, -1) (x, y) \<or> inside (-1, 1) (1, -1) (1, 1) (x, y)) =
   (-1 \<le> x \<and> x \<le> 1 \<and> -1 \<le> y \<and> y \<le> 1)"
  by (auto simp add: inside_def orient_def)

subsection \<open>The render pass: what each call leaves alone\<close>

lemma pointers_differ_labels [simp]:
  "pointers_differ e ''VERTEX'' ''PROGRAM''"
  "pointers_differ e ''FRAGMENT'' ''PROGRAM''"
  "pointers_differ e ''PROGRAM'' ''PROGRAM'' = (\<not> literals_pooled e)"
  by (simp_all add: pointers_differ_def)

lemma Shader_cout:
  assumes "current_context s = Some c"
  shows "\<exists>rest. cout (snd (Shader e vf ff s)) =
           cout s @ loader_output e vf @ loader_output e ff @
           stage_diagnostic e GL_VERTEX_SHADER ''VERTEX'' (c_str (loaded e vf)) @
           stage_diagnostic e GL_FRAGMENT_SHADER ''FRAGMENT'' (c_str (loaded e ff)) @ rest \<and>
         (literals_pooled e \<longrightarrow> rest = link_diagnostic e)"
proof (cases "literals_pooled e")
  case True
  then show ?thesis
    using assms
    by (simp add: shader_unfold compileErrors_cout_shader compileErrors_cout_program
        stage_diagnostic_def link_diagnostic_def)
next
  case False
  then show ?thesis
    using assms
    by (simp add: shader_unfold compileErrors_cout_shader stage_diagnostic_def)
qed

lemma Shader_last_call:
  assumes "current_context s = Some c"
  shows "last (trace (snd (Shader e vf ff s))) = Call ''glDeleteShader'' [U (names_used c + 2)]"
  using assms by (simp add: shader_unfold)

lemma current_vertex_arrays_helpers [simp]:
  "current_vertex_arrays (call f a s) = current_vertex_arrays s"
  "current_vertex_arrays (cout_write t s) = current_vertex_arrays s"
  "current_vertex_arrays (compileErrors e n ty s) = current_vertex_arrays s"
  "current_vertex_arrays (s\<lparr>quadVAO := v\<rparr>) = current_vertex_arrays s"
  "current_vertex_arrays (s\<lparr>quadVBO := v\<rparr>) = current_vertex_arrays s"
  by (simp_all add: current_vertex_arrays_def)

lemma glGenTextures_fields [simp]:
  "gWindow (snd (glGenTextures s)) = gWindow s"
  "gGLReady (snd (glGenTextures s)) = gGLReady s"
  "quadVAO (snd (glGenTextures s)) = quadVAO s"
  "quadVBO (snd (glGenTextures s)) = quadVBO s"
  "cout (snd (glGenTextures s)) = cout s"
  "cerr (snd (glGenTextures s)) = cerr s"
  "glfw_up (snd (glGenTextures s)) = glfw_up s"
  "windows_created (snd (glGenTextures s)) = windows_created s"
  "current (snd (glGenTextures s)) = current s"
  "current_vertex_arrays (snd (glGenTextures s)) = current_vertex_arrays s"
  "trace (snd (glGenTextures s)) = trace s @ [Call ''glGenTextures'' [I 1, U (fst (glGenTextures s))]]"
  by (simp_all add: glGenTextures_def Let_def current_vertex_arrays_def split: option.split)

lemma glGenFramebuffers_fields [simp]:
  "gWindow (snd (glGenFramebuffers s)) = gWindow s"
  "gGLReady (snd (glGenFramebuffers s)) = gGLReady s"
  "quadVAO (snd (glGenFramebuffers s)) = quadVAO s"
  "quadVBO (snd (glGenFramebuffers s)) = quadVBO s"
  "cout (snd (glGenFramebuffers s)) = cout s"
  "cerr (snd (glGenFramebuffers s)) = cerr s"
  "glfw_up (snd (glGenFramebuffers s)) = glfw_up s"
  "windows_created (snd (glGenFramebuffers s)) = windows_created s"
  "current (snd (glGenFramebuffers s)) = current s"
  "current_vertex_arrays (snd (glGenFramebuffers s)) = current_vertex_arrays s"
  "trace (snd (glGenFramebuffers s)) = trace s @ [Call ''glGenFramebuffers'' [I 1, U (fst (glGenFramebuffers s))]]"
  by (simp_all add: glGenFramebuffers_def Let_def current_vertex_arrays_def split: option.split)

lemma glDeleteTextures_fields [simp]:
  "gWindow (glDeleteTextures n s) = gWindow s"
  "gGLReady (glDeleteTextures n s) = gGLReady s"
  "quadVAO (glDeleteTextures n s) = quadVAO s"
  "quadVBO (glDeleteTextures n s) = quadVBO s"
  "cout (glDeleteTextures n s) = cout s"
  "cerr (glDeleteTextures n s) = cerr s"
  "glfw_up (glDeleteTextures n s) = glfw_up s"
  "windows_created (glDeleteTextures n s) = windows_created s"
  "current (glDeleteTextures n s) = current s"
  "current_vertex_arrays (glDeleteTextures n s) = current_vertex_arrays s"
  "trace (glDeleteTextures n s) = trace s @ [Call ''glDeleteTextures'' [I 1, U n]]"
  by (simp_all add: glDeleteTextures_def Let_def current_vertex_arrays_def split: option.split)

lemma glDeleteFramebuffers_fields [simp]:
  "gWindow (glDeleteFramebuffers n s) = gWindow s"
  "gGLReady (glDeleteFramebuffers n s) = gGLReady s"
  "quadVAO (glDeleteFramebuffers n s) = quadVAO s"
  "quadVBO (glDeleteFramebuffers n s) = quadVBO s"
  "cout (glDeleteFramebuffers n s) = cout s"
  "cerr (glDeleteFramebuffers n s) = cerr s"
  "glfw_up (glDeleteFramebuffers n s) = glfw_up s"
  "windows_created (glDeleteFramebuffers n s) = windows_created s"
  "current (glDeleteFramebuffers n s) = current s"
  "current_vertex_arrays (glDeleteFramebuffers n s) = current_vertex_arrays s"
  "trace (glDeleteFramebuffers n s) = trace s @ [Call ''glDeleteFramebuffers'' [I 1, U n]]"
  by (simp_all add: glDeleteFramebuffers_def Let_def current_vertex_arrays_def split: option.split)

lemma Delete_fields [simp]:
  "gWindow (Delete n s) = gWindow s"
  "gGLReady (Delete n s) = gGLReady s"
  "quadVAO (Delete n s) = quadVAO s"
  "quadVBO (Delete n s) = quadVBO s"
  "cout (Delete n s) = cout s"
  "cerr (Delete n s) = cerr s"
  "glfw_up (Delete n s) = glfw_up s"
  "windows_created (Delete n s) = windows_created s"
  "current (Delete n s) = current s"
  "current_vertex_arrays (Delete n s) = current_vertex_arrays s"
  "trace (Delete n s) = trace s @ [Call ''glDeleteProgram'' [U n]]"
  by (simp_all add:  Delete_def glDeleteProgram_def Let_def current_vertex_arrays_def split: option.split)

lemma Activate_fields [simp]:
  "gWindow (Activate n s) = gWindow s"
  "gGLReady (Activate n s) = gGLReady s"
  "quadVAO (Activate n s) = quadVAO s"
  "quadVBO (Activate n s) = quadVBO s"
  "cout (Activate n s) = cout s"
  "cerr (Activate n s) = cerr s"
  "glfw_up (Activate n s) = glfw_up s"
  "windows_created (Activate n s) = windows_created s"
  "current (Activate n s) = current s"
  "current_vertex_arrays (Activate n s) = current_vertex_arrays s"
  "trace (Activate n s) = trace s @ [Call ''glUseProgram'' [U n]]"
  by (simp_all add:  Activate_def Let_def current_vertex_arrays_def split: option.split)

lemma glCheckFramebufferStatus_fields [simp]:
  "gWindow (snd (glCheckFramebufferStatus e t s)) = gWindow s"
  "gGLReady (snd (glCheckFramebufferStatus e t s)) = gGLReady s"
  "quadVAO (snd (glCheckFramebufferStatus e t s)) = quadVAO s"
  "quadVBO (snd (glCheckFramebufferStatus e t s)) = quadVBO s"
  "cout (snd (glCheckFramebufferStatus e t s)) = cout s"
  "cerr (snd (glCheckFramebufferStatus e t s)) = cerr s"
  "glfw_up (snd (glCheckFramebufferStatus e t s)) = glfw_up s"
  "windows_created (snd (glCheckFramebufferStatus e t s)) = windows_created s"
  "current (snd (glCheckFramebufferStatus e t s)) = current s"
  "current_vertex_arrays (snd (glCheckFramebufferStatus e t s)) = current_vertex_arrays s"
  "trace (snd (glCheckFramebufferStatus e t s)) = trace s @ [Call ''glCheckFramebufferStatus'' [E t]]"
  by (simp_all add: glCheckFramebufferStatus_def Let_def current_vertex_arrays_def split: option.split)

lemma glGetUniformLocation_fields [simp]:
  "gWindow (snd (glGetUniformLocation e p name s)) = gWindow s"
  "gGLReady (snd (glGetUniformLocation e p name s)) = gGLReady s"
  "quadVAO (snd (glGetUniformLocation e p name s)) = quadVAO s"
  "quadVBO (snd (glGetUniformLocation e p name s)) = quadVBO s"
  "cout (snd (glGetUniformLocation e p name s)) = cout s"
  "cerr (snd (glGetUniformLocation e p name s)) = cerr s"
  "glfw_up (snd (glGetUniformLocation e p name s)) = glfw_up s"
  "windows_created (snd (glGetUniformLocation e p name s)) = windows_created s"
  "current (snd (glGetUniformLocation e p name s)) = current s"
  "current_vertex_arrays (snd (glGetUniformLocation e p name s)) = current_vertex_arrays s"
  "trace (snd (glGetUniformLocation e p name s)) = trace s @ [Call ''glGetUniformLocation'' [U p, S name]]"
  by (simp_all add: glGetUniformLocation_def Let_def current_vertex_arrays_def split: option.split)

lemma glReadPixels_fields [simp]:
  "gWindow (snd (glReadPixels e x y w h fmt ty buf s)) = gWindow s"
  "gGLReady (snd (glReadPixels e x y w h fmt ty buf s)) = gGLReady s"
  "quadVAO (snd (glReadPixels e x y w h fmt ty buf s)) = quadVAO s"
  "quadVBO (snd (glReadPixels e x y w h fmt ty buf s)) = quadVBO s"
  "cout (snd (glReadPixels e x y w h fmt ty buf s)) = cout s"
  "cerr (snd (glReadPixels e x y w h fmt ty buf s)) = cerr s"
  "glfw_up (snd (glReadPixels e x y w h fmt ty buf s)) = glfw_up s"
  "windows_created (snd (glReadPixels e x y w h fmt ty buf s)) = windows_created s"
  "current (snd (glReadPixels e x y w h fmt ty buf s)) = current s"
  "current_vertex_arrays (snd (glReadPixels e x y w h fmt ty buf s)) = current_vertex_arrays s"
  "trace (snd (glReadPixels e x y w h fmt ty buf s)) = trace s @ [Call ''glReadPixels'' [I x, I y, I w, I h, E fmt, E ty, Ptr]]"
  by (simp_all add: glReadPixels_def Let_def current_vertex_arrays_def split: option.split)

lemma glCheckFramebufferStatus_result [simp]:
  "fst (glCheckFramebufferStatus e t s) = framebuffer_status e"
  by (simp add: glCheckFramebufferStatus_def)

lemma glfwMakeContextCurrent_fields [simp]:
  "gWindow (glfwMakeContextCurrent w s) = gWindow s"
  "gGLReady (glfwMakeContextCurrent w s) = gGLReady s"
  "quadVAO (glfwMakeContextCurrent w s) = quadVAO s"
  "quadVBO (glfwMakeContextCurrent w s) = quadVBO s"
  "cout (glfwMakeContextCurrent w s) = cout s"
  "cerr (glfwMakeContextCurrent w s) = cerr s"
  "contexts (glfwMakeContextCurrent w s) = contexts s"
  "current (glfwMakeContextCurrent w s) = w"
  "trace (glfwMakeContextCurrent w s) = trace s @ [Call ''glfwMakeContextCurrent'' [U w]]"
  by (simp_all add: glfwMakeContextCurrent_def)

lemma Shader_current_vertex_arrays [simp]:
  "current_vertex_arrays (snd (Shader e vf ff s)) = current_vertex_arrays s"
  by (cases "current_context s"; simp add: shader_unfold current_vertex_arrays_def)

lemma Shader_trace_ext: "\<exists>t. trace (snd (Shader e vf ff s)) = trace s @ t"
  by (cases "current_context s"; simp add: shader_unfold)

lemma Shader_trace [simp]:
  "trace (snd (Shader e vf ff s)) = trace s @ new_calls s (snd (Shader e vf ff s))"
proof -
  obtain t where "trace (snd (Shader e vf ff s)) = trace s @ t"
    using Shader_trace_ext by blast
  then show ?thesis by (simp add: new_calls_def)
qed

lemma queries_names: "c \<in> set (queries e n ty s) \<Longrightarrow> call_name c \<in> shader_call_names"
proof -
  assume c: "c \<in> set (queries e n ty s)"
  from queries_are_queries [of e n ty s, unfolded filter_empty_conv] c
  have "is_query c" by blast
  then show ?thesis by (simp add: is_query_def shader_call_names_def)
qed

lemma Shader_call_names:
  "c \<in> set (new_calls s (snd (Shader e vf ff s))) \<Longrightarrow> call_name c \<in> shader_call_names"
  apply (cases "current_context s")
   apply (simp_all add: shader_unfold new_calls_def del: Shader_trace)
   apply (auto dest: queries_names simp: shader_call_names_def)
  done

lemma Shader_calls_filtered:
  "N \<inter> shader_call_names = {} \<Longrightarrow>
   filter (\<lambda>c. call_name c \<in> N) (new_calls s (snd (Shader e vf ff s))) = []"
  using Shader_call_names by (fastforce simp: filter_empty_conv)

subsection \<open>The render pass as a whole\<close>

lemma InitGLFW_fields [simp]:
  "quadVAO (snd (InitGLFW e s)) = quadVAO s"
  "quadVBO (snd (InitGLFW e s)) = quadVBO s"
  "cout (snd (InitGLFW e s)) = cout s"
  "cerr (snd (InitGLFW e s)) = cerr s"
  by (simp_all add: InitGLFW_def glfw_defs Let_def)

lemma CleanupGLFW_fields [simp]:
  "quadVAO (CleanupGLFW s) = quadVAO s"
  "quadVBO (CleanupGLFW s) = quadVBO s"
  "cout (CleanupGLFW s) = cout s"
  "cerr (CleanupGLFW s) = cerr s"
  by (simp_all add: CleanupGLFW_def glfw_defs Let_def)

lemma InitFullscreenQuad_fields [simp]:
  "gWindow (InitFullscreenQuad s) = gWindow s"
  "gGLReady (InitFullscreenQuad s) = gGLReady s"
  "cout (InitFullscreenQuad s) = cout s"
  "cerr (InitFullscreenQuad s) = cerr s"
  "current (InitFullscreenQuad s) = current s"
  by (simp_all add: InitFullscreenQuad_def gl_defs Let_def)

lemma InitFullscreenQuad_quadVAO:
  "quadVAO s \<noteq> 0 \<Longrightarrow> quadVAO (InitFullscreenQuad s) = quadVAO s"
  by (simp add: InitFullscreenQuad_guard)

lemma UploadToGL_init_fails:
  "\<not> fst (InitGLFW e s) \<Longrightarrow>
   UploadToGL e rgb w h out ex wp s = (out, snd (InitGLFW e s))"
  by (simp add: UploadToGL_def split_beta)

lemma UploadToGL_incomplete:
  "fst (InitGLFW e s) \<Longrightarrow> framebuffer_status e \<noteq> GL_FRAMEBUFFER_COMPLETE \<Longrightarrow>
   fst (UploadToGL e rgb w h out ex wp s) = out \<and>
   last (trace (snd (UploadToGL e rgb w h out ex wp s))) =
     Call ''glCheckFramebufferStatus'' [E GL_FRAMEBUFFER]"
  by (simp add: UploadToGL_def split_beta Let_def)

lemma UploadToGL_quadVAO:
  "quadVAO s \<noteq> 0 \<Longrightarrow> quadVAO (snd (UploadToGL e rgb w h out ex wp s)) = quadVAO s"
  by (simp add: UploadToGL_def split_beta Let_def InitFullscreenQuad_quadVAO)

lemma UploadToGL_cerr:
  "cerr (snd (UploadToGL e rgb w h out ex wp s)) = cerr s"
  by (simp add: UploadToGL_def split_beta Let_def)

lemma new_calls_eqI: "trace s' = trace s @ t \<Longrightarrow> new_calls s s' = t"
  by (simp add: new_calls_def)

lemma InitGLFW_success_fresh:
  assumes "\<not> gGLReady s" "fst (InitGLFW e s)"
  shows "InitGLFW e s =
     (True, s\<lparr>gWindow := Suc (windows_created s), gGLReady := True, glfw_up := True,
              windows_created := Suc (windows_created s),
              contexts := (contexts s)(Suc (windows_created s) \<mapsto> empty_context),
              current := Suc (windows_created s),
              trace := trace s @ init_sequence (Suc (windows_created s))\<rparr>)"
  using assms
  by (auto simp add: InitGLFW_def glfw_defs Let_def call_def init_sequence_def split: if_splits)

lemma Shader_no_vao_draw [simp]:
  "filter (\<lambda>c. call_name c \<in> vao_draw_names) (new_calls s (snd (Shader e vf ff s))) = []"
  by (rule Shader_calls_filtered) (simp add: vao_draw_names_def shader_call_names_def)

lemma current_vertex_arrays_make_current:
  "current s = w \<Longrightarrow>
   current_vertex_arrays (glfwMakeContextCurrent w s) = current_vertex_arrays s"
  by (simp add: current_vertex_arrays_def current_context_def glfwMakeContextCurrent_def call_def)

lemma UploadToGL_ready_vertex_arrays:
  assumes "gGLReady s" "quadVAO s \<noteq> 0" "current s = gWindow s"
  shows "current_vertex_arrays (snd (UploadToGL e rgb w h out ex wp s)) = current_vertex_arrays s"
  using assms
  by (simp add: UploadToGL_def split_beta Let_def InitGLFW_ready InitFullscreenQuad_guard
      current_vertex_arrays_make_current)

lemma glGetUniformLocation_result [simp]:
  "fst (glGetUniformLocation e p name s) = uniform_location e p name"
  by (simp add: glGetUniformLocation_def)

lemma glReadPixels_result [simp]:
  "fst (glReadPixels e x y w h fmt ty buf s) =
     (if w < 0 \<or> h < 0 then buf
      else map (\<lambda>i. if i < nat (w * h * 4) then rendered e i else buf ! i) [0..<length buf])"
  by (simp add: glReadPixels_def)

lemma Shader_no_vao_draw_unfolded [simp]:
  "filter (\<lambda>c. call_name c = ''glGenVertexArrays'' \<or> call_name c = ''glBindVertexArray'' \<or>
               call_name c = ''glDrawArrays'')
     (new_calls s (snd (Shader e vf ff s))) = []"
  using Shader_no_vao_draw [of s e vf ff] by (simp add: vao_draw_names_def)

lemma UploadToGL_ready_trace:
  assumes "gGLReady s" "quadVAO s \<noteq> 0"
  shows "\<exists>L. trace (snd (UploadToGL e rgb w h out ex wp s)) = trace s @ L \<and>
          filter (\<lambda>c. call_name c \<in> vao_draw_names) L =
         (if framebuffer_status e = GL_FRAMEBUFFER_COMPLETE
          then [Call ''glBindVertexArray'' [U (quadVAO s)],
                Call ''glDrawArrays'' [E GL_TRIANGLES, I 0, I 6],
                Call ''glBindVertexArray'' [U 0]]
          else [])"
  using assms
  by (simp add: UploadToGL_def split_beta Let_def InitGLFW_ready InitFullscreenQuad_guard
      vao_draw_names_def)

lemma gen_results [simp]:
  "fst (glGenTextures s) = new_name s"
  "fst (glGenFramebuffers s) = new_name s"
  by (simp_all add: gl_defs Let_def)

lemma gl_contexts [simp]:
  "current_context (snd (glGenTextures s)) =
     map_option (\<lambda>c. c\<lparr>names_used := Suc (names_used c),
                        textures := insert (Suc (names_used c)) (textures c)\<rparr>) (current_context s)"
  "current_context (snd (glGenFramebuffers s)) =
     map_option (\<lambda>c. c\<lparr>names_used := Suc (names_used c),
                        framebuffers := insert (Suc (names_used c)) (framebuffers c)\<rparr>)
       (current_context s)"
  "current_context (glDeleteTextures n s) =
     map_option (\<lambda>c. c\<lparr>textures := textures c - {n}\<rparr>) (current_context s)"
  "current_context (glDeleteFramebuffers n s) =
     map_option (\<lambda>c. c\<lparr>framebuffers := framebuffers c - {n}\<rparr>) (current_context s)"
  "current_context (Delete n s) =
     map_option (\<lambda>c. c\<lparr>programs := (programs c)(n := None)\<rparr>) (current_context s)"
  "current_context (Activate n s) = current_context s"
  "current_context (snd (glCheckFramebufferStatus e t s)) = current_context s"
  "current_context (snd (glGetUniformLocation e p name s)) = current_context s"
  "current_context (snd (glReadPixels e x y w h fmt ty buf s)) = current_context s"
  by (cases "current_context s"; simp add: gl_defs Let_def Delete_def Activate_def)+

lemma Shader_result:
  "fst (Shader e vf ff s) = (case current_context s of None \<Rightarrow> 0 | Some c \<Rightarrow> names_used c + 3)"
  by (cases "current_context s"; simp add: shader_unfold)

lemma current_context_make_current:
  "current s = w \<Longrightarrow> current_context (glfwMakeContextCurrent w s) = current_context s"
  by (simp add: current_context_def glfwMakeContextCurrent_def call_def)

lemma UploadToGL_incomplete_context:
  assumes "fst (InitGLFW e s)" "framebuffer_status e \<noteq> GL_FRAMEBUFFER_COMPLETE"
    "current (snd (InitGLFW e s)) = gWindow (snd (InitGLFW e s))"
    "current_context (InitFullscreenQuad (snd (InitGLFW e s))) = Some c"
  shows "\<exists>c'. current_context (snd (UploadToGL e rgb w h out ex wp s)) = Some c' \<and>
           textures c' = insert (names_used c + 3) (insert (names_used c + 1) (textures c)) \<and>
           framebuffers c' = insert (names_used c + 2) (framebuffers c)"
  using assms
  by (simp add: UploadToGL_def split_beta Let_def current_context_make_current new_name_def
      eval_nat_numeral)

lemma Shader_context_map [simp]:
  "current_context (snd (Shader e vf ff s)) = map_option (after_shader e) (current_context s)"
proof (cases "current_context s")
  case None
  then show ?thesis by (simp add: shader_unfold)
next
  case (Some c)
  from Shader_context [OF Some, of e vf ff] obtain c' where
    c': "current_context (snd (Shader e vf ff s)) = Some c'"
      "names_used c' = names_used c + 3" "textures c' = textures c"
      "framebuffers c' = framebuffers c" "vertex_arrays c' = vertex_arrays c"
      "buffers c' = buffers c"
      "shaders c' = (shaders c)(names_used c + 1 := None, names_used c + 2 := None)"
      "programs c' = (programs c)(names_used c + 3 \<mapsto>
               \<lparr>pr_attached = [names_used c + 1, names_used c + 2],
                pr_linked = fst (link_result e), pr_log = snd (link_result e)\<rparr>)"
    by blast
  have "c' = after_shader e c"
    by (rule gl_context.equality) (simp_all add: c' after_shader_def)
  then show ?thesis by (simp add: c'(1) Some)
qed

lemma UploadToGL_complete_context:
  assumes "fst (InitGLFW e s)" "framebuffer_status e = GL_FRAMEBUFFER_COMPLETE"
    "current (snd (InitGLFW e s)) = gWindow (snd (InitGLFW e s))"
    "current_context (InitFullscreenQuad (snd (InitGLFW e s))) = Some c"
  shows "\<exists>c'. current_context (snd (UploadToGL e rgb w h out ex wp s)) = Some c' \<and>
           textures c' = textures c - {names_used c + 1, names_used c + 3} \<and>
           framebuffers c' = framebuffers c - {names_used c + 2} \<and>
           programs c' = (programs c)(names_used c + 6 := None)"
  using assms
  by (auto simp add: UploadToGL_def split_beta Let_def current_context_make_current new_name_def
      Shader_result after_shader_def eval_nat_numeral)

lemma world_ready_eq:
  "world_ready =
     \<lparr>gWindow = 1, gGLReady = True, quadVAO = 0, quadVBO = 0, cout = [], cerr = [],
      glfw_up = True, windows_created = 1, contexts = [1 \<mapsto> empty_context], current = 1,
      trace = init_sequence 1\<rparr>"
  by (simp add: world_ready_def InitGLFW_def glfw_defs Let_def env_ok_def world0_def call_def
      init_sequence_def)

lemma InitGLFW_world0:
  "InitGLFW env_ok world0 = (True, world_ready)"
  "InitGLFW env_incomplete world0 = (True, world_ready)"
  "fst (InitGLFW env_no_glad world0) = False"
  by (simp_all add: world_ready_def InitGLFW_def glfw_defs Let_def env_ok_def env_incomplete_def
      env_no_glad_def world0_def call_def)

lemma world_ready_quad:
  "\<exists>c. current_context (InitFullscreenQuad world_ready) = Some c \<and> names_used c = 2 \<and>
       textures c = {} \<and> framebuffers c = {} \<and> programs c = Map.empty"
  "quadVAO (InitFullscreenQuad world_ready) = 1"
  by (simp_all add: InitFullscreenQuad_def gl_defs Let_def world_ready_eq current_context_def
      on_context_def call_def empty_context_def)

lemma UploadToGL_globals:
  "fst (InitGLFW e s) \<Longrightarrow>
   quadVAO (snd (UploadToGL e rgb w h out ex wp s)) = quadVAO (InitFullscreenQuad (snd (InitGLFW e s))) \<and>
   gGLReady (snd (UploadToGL e rgb w h out ex wp s))"
  using InitGLFW_success_ready [of e s]
  by (simp add: UploadToGL_def split_beta Let_def)

lemma world_drawn_globals: "quadVAO world_drawn = 1" "gGLReady world_drawn"
  using UploadToGL_globals [of env_ok world0 "[0, 0, 0]" 1 1 "[0, 0, 0, 0]" 1 1]
  by (simp_all add: world_drawn_def InitGLFW_world0 world_ready_quad)

lemma CleanupGLFW_ready_trace:
  "gGLReady s \<Longrightarrow>
   trace (CleanupGLFW s) =
     trace s @ [Call ''glfwDestroyWindow'' [U (gWindow s)], Call ''glfwTerminate'' []]"
  by (simp add: CleanupGLFW_def glfw_defs Let_def)

subsection \<open>Steps and output of the shader constructor\<close>

lemma Shader_steps:
  "current_context s = Some c \<Longrightarrow>
   filter (\<lambda>c. \<not> is_query c) (new_calls s (snd (Shader e vf ff s))) =
     shader_steps (names_used c) (c_str (loaded e vf)) (c_str (loaded e ff))"
  by (simp add: Shader_calls shader_steps_def)

lemma Shader_objects:
  assumes "current_context s = Some c"
  shows "lookup_shader (snd (Shader e vf ff s)) (names_used c + 1) = None"
    "lookup_shader (snd (Shader e vf ff s)) (names_used c + 2) = None"
    "lookup_program (snd (Shader e vf ff s)) (names_used c + 3) =
       Some \<lparr>pr_attached = [names_used c + 1, names_used c + 2],
             pr_linked = fst (link_result e), pr_log = snd (link_result e)\<rparr>"
  using assms by (simp_all add: lookup_shader_def lookup_program_def after_shader_def)

lemma InitGLFW_trace_ext: "\<exists>t. trace (snd (InitGLFW e s)) = trace s @ t"
  by (simp add: InitGLFW_def glfw_defs Let_def)

lemma InitFullscreenQuad_trace_ext: "\<exists>t. trace (InitFullscreenQuad s) = trace s @ t"
  by (simp add: InitFullscreenQuad_def gl_defs Let_def)

lemma InitGLFW_trace:
  "trace (snd (InitGLFW e s)) = trace s @ new_calls s (snd (InitGLFW e s))"
proof -
  obtain t where "trace (snd (InitGLFW e s)) = trace s @ t"
    using InitGLFW_trace_ext by blast
  then show ?thesis by (simp add: new_calls_def)
qed

lemma InitFullscreenQuad_trace:
  "trace (InitFullscreenQuad s) = trace s @ new_calls s (InitFullscreenQuad s)"
proof -
  obtain t where "trace (InitFullscreenQuad s) = trace s @ t"
    using InitFullscreenQuad_trace_ext by blast
  then show ?thesis by (simp add: new_calls_def)
qed

lemma UploadToGL_complete_draws:
  assumes "fst (InitGLFW e s)" "framebuffer_status e = GL_FRAMEBUFFER_COMPLETE"
  shows "Call ''glDrawArrays'' [E GL_TRIANGLES, I 0, I 6]
           \<in> set (new_calls s (snd (UploadToGL e rgb w h out ex wp s)))"
proof -
  have "\<exists>L. trace (snd (UploadToGL e rgb w h out ex wp s)) = trace s @ L \<and>
          Call ''glDrawArrays'' [E GL_TRIANGLES, I 0, I 6] \<in> set L"
    using assms
    by (simp add: UploadToGL_def split_beta Let_def InitGLFW_trace InitFullscreenQuad_trace)
  then obtain L where L: "trace (snd (UploadToGL e rgb w h out ex wp s)) = trace s @ L"
    "Call ''glDrawArrays'' [E GL_TRIANGLES, I 0, I 6] \<in> set L"
    by blast
  from new_calls_eqI [OF L(1)] L(2) show ?thesis by simp
qed

lemma world_ready_context: "current_context world_ready = Some empty_context"
  by (simp add: world_ready_eq current_context_def)

lemma env_ok_loaded: "loaded env_ok f = []" "loader_output env_ok f = ''file not found: '' @ f @ endl"
  by (simp_all add: loaded_def loader_output_def env_ok_def)

lemma env_ok_diagnostics:
  "stage_diagnostic env_ok ty label [] =
     ''SHADER_COMPILATION_ERROR for: '' @ label @ endl @ ''no main'' @ endl"
  "link_diagnostic env_ok = ''SHADER_LINKING_ERROR for: PROGRAM'' @ endl @ ''link failed'' @ endl"
  "literals_pooled env_ok"
  by (simp_all add: stage_diagnostic_def link_diagnostic_def env_ok_def)

lemma get_file_contents_missing:
  "files e f = None \<Longrightarrow>
   get_file_contents e f s = ([], s\<lparr>cout := cout s @ ''file not found: '' @ f @ endl\<rparr>)"
  by (simp add: get_file_contents_def cout_write_def)

lemma missing_loaded:
  "files e f = None \<Longrightarrow> loaded e f = []"
  "files e f = None \<Longrightarrow> loader_output e f = ''file not found: '' @ f @ endl"
  by (simp_all add: loaded_def loader_output_def)

lemma c_str_empty [simp]: "c_str [] = []"
  by (simp add: c_str_def)

lemma stage_diagnostic_failed:
  "\<not> fst (compile_result e ty src) \<Longrightarrow>
   stage_diagnostic e ty label src =
     ''SHADER_COMPILATION_ERROR for: '' @ label @ endl @
     take 1023 (snd (compile_result e ty src)) @ endl"
  by (simp add: stage_diagnostic_def)

lemma Shader_missing_vertex:
  assumes m: "files e vf = None" and ctx: "current_context s = Some c"
  shows "fst (Shader e vf ff s) = names_used c + 3 \<and>
      filter (\<lambda>c. \<not> is_query c) (new_calls s (snd (Shader e vf ff s))) =
        shader_steps (names_used c) [] (c_str (loaded e ff)) \<and>
      (\<exists>pre post. cout (snd (Shader e vf ff s)) = pre @ ''file not found: '' @ vf @ endl @ post) \<and>
      (\<not> fst (compile_result e GL_VERTEX_SHADER []) \<longrightarrow>
         (\<exists>pre post. cout (snd (Shader e vf ff s)) =
            pre @ ''SHADER_COMPILATION_ERROR for: '' @ ''VERTEX'' @ endl @
            take 1023 (snd (compile_result e GL_VERTEX_SHADER [])) @ endl @ post))"
proof -
  obtain rest where rest: "cout (snd (Shader e vf ff s)) =
      cout s @ loader_output e vf @ loader_output e ff @
      stage_diagnostic e GL_VERTEX_SHADER ''VERTEX'' (c_str (loaded e vf)) @
      stage_diagnostic e GL_FRAGMENT_SHADER ''FRAGMENT'' (c_str (loaded e ff)) @ rest"
    using Shader_cout [OF ctx, of e vf ff] by blast
  have a: "cout (snd (Shader e vf ff s)) =
      cout s @ ''file not found: '' @ vf @ endl @
        (loader_output e ff @ stage_diagnostic e GL_VERTEX_SHADER ''VERTEX'' [] @
         stage_diagnostic e GL_FRAGMENT_SHADER ''FRAGMENT'' (c_str (loaded e ff)) @ rest)"
    using rest by (simp add: missing_loaded [OF m])
  have b: "cout (snd (Shader e vf ff s)) =
      (cout s @ loader_output e vf @ loader_output e ff) @
        ''SHADER_COMPILATION_ERROR for: '' @ ''VERTEX'' @ endl @
        take 1023 (snd (compile_result e GL_VERTEX_SHADER [])) @ endl @
        (stage_diagnostic e GL_FRAGMENT_SHADER ''FRAGMENT'' (c_str (loaded e ff)) @ rest)"
    if "\<not> fst (compile_result e GL_VERTEX_SHADER [])"
    using rest stage_diagnostic_failed [OF that, of "''VERTEX''"]
    by (simp add: missing_loaded(1) [OF m])
  have ex1: "\<exists>pre post. cout (snd (Shader e vf ff s)) =
      pre @ ''file not found: '' @ vf @ endl @ post"
    by (intro exI) (rule a)
  have ex2: "\<exists>pre post. cout (snd (Shader e vf ff s)) =
            pre @ ''SHADER_COMPILATION_ERROR for: '' @ ''VERTEX'' @ endl @
            take 1023 (snd (compile_result e GL_VERTEX_SHADER [])) @ endl @ post"
    if "\<not> fst (compile_result e GL_VERTEX_SHADER [])"
    by (intro exI) (rule b [OF that])
  have st: "filter (\<lambda>c. \<not> is_query c) (new_calls s (snd (Shader e vf ff s))) =
        shader_steps (names_used c) [] (c_str (loaded e ff))"
    using Shader_steps [OF ctx, of e vf ff] by (simp add: missing_loaded(1) [OF m])
  show ?thesis
    using Shader_ID [OF ctx, of e vf ff] st ex1 ex2 by blast
qed

lemma Shader_missing_fragment:
  assumes m: "files e ff = None" and ctx: "current_context s = Some c"
  shows "fst (Shader e vf ff s) = names_used c + 3 \<and>
      filter (\<lambda>c. \<not> is_query c) (new_calls s (snd (Shader e vf ff s))) =
        shader_steps (names_used c) (c_str (loaded e vf)) [] \<and>
      (\<exists>pre post. cout (snd (Shader e vf ff s)) = pre @ ''file not found: '' @ ff @ endl @ post) \<and>
      (\<not> fst (compile_result e GL_FRAGMENT_SHADER []) \<longrightarrow>
         (\<exists>pre post. cout (snd (Shader e vf ff s)) =
            pre @ ''SHADER_COMPILATION_ERROR for: '' @ ''FRAGMENT'' @ endl @
            take 1023 (snd (compile_result e GL_FRAGMENT_SHADER [])) @ endl @ post))"
proof -
  obtain rest where rest: "cout (snd (Shader e vf ff s)) =
      cout s @ loader_output e vf @ loader_output e ff @
      stage_diagnostic e GL_VERTEX_SHADER ''VERTEX'' (c_str (loaded e vf)) @
      stage_diagnostic e GL_FRAGMENT_SHADER ''FRAGMENT'' (c_str (loaded e ff)) @ rest"
    using Shader_cout [OF ctx, of e vf ff] by blast
  have a: "cout (snd (Shader e vf ff s)) =
      (cout s @ loader_output e vf) @ ''file not found: '' @ ff @ endl @
        (stage_diagnostic e GL_VERTEX_SHADER ''VERTEX'' (c_str (loaded e vf)) @
         stage_diagnostic e GL_FRAGMENT_SHADER ''FRAGMENT'' [] @ rest)"
    using rest by (simp add: missing_loaded [OF m])
  have b: "cout (snd (Shader e vf ff s)) =
      (cout s @ loader_output e vf @ loader_output e ff @
         stage_diagnostic e GL_VERTEX_SHADER ''VERTEX'' (c_str (loaded e vf))) @
        ''SHADER_COMPILATION_ERROR for: '' @ ''FRAGMENT'' @ endl @
        take 1023 (snd (compile_result e GL_FRAGMENT_SHADER [])) @ endl @ rest"
    if "\<not> fst (compile_result e GL_FRAGMENT_SHADER [])"
    using rest stage_diagnostic_failed [OF that, of "''FRAGMENT''"]
    by (simp add: missing_loaded(1) [OF m])
  have ex1: "\<exists>pre post. cout (snd (Shader e vf ff s)) =
      pre @ ''file not found: '' @ ff @ endl @ post"
    by (intro exI) (rule a)
  have ex2: "\<exists>pre post. cout (snd (Shader e vf ff s)) =
            pre @ ''SHADER_COMPILATION_ERROR for: '' @ ''FRAGMENT'' @ endl @
            take 1023 (snd (compile_result e GL_FRAGMENT_SHADER [])) @ endl @ post"
    if "\<not> fst (compile_result e GL_FRAGMENT_SHADER [])"
    by (intro exI) (rule b [OF that])
  have st: "filter (\<lambda>c. \<not> is_query c) (new_calls s (snd (Shader e vf ff s))) =
        shader_steps (names_used c) (c_str (loaded e vf)) []"
    using Shader_steps [OF ctx, of e vf ff] by (simp add: missing_loaded(1) [OF m])
  show ?thesis
    using Shader_ID [OF ctx, of e vf ff] st ex1 ex2 by blast
qed

section \<open>The claims\<close>

text \<open>
  C1. When \<^verbatim>\<open>InitGLFW\<close> returns false, or when the framebuffer status is not
  \<^verbatim>\<open>GL_FRAMEBUFFER_COMPLETE\<close>, \<^verbatim>\<open>UploadToGL\<close> returns the output buffer as the caller
  passed it. In the first case nothing happens after \<^verbatim>\<open>InitGLFW\<close>; in the second the
  status check is the last call made.
\<close>

theorem UploadToGL_abort_leaves_output:
  "((\<not> fst (InitGLFW e s) \<or> framebuffer_status e \<noteq> GL_FRAMEBUFFER_COMPLETE) \<longrightarrow>
      fst (UploadToGL e rgb w h out ex wp s) = out) \<and>
   (\<not> fst (InitGLFW e s) \<longrightarrow>
      snd (UploadToGL e rgb w h out ex wp s) = snd (InitGLFW e s)) \<and>
   (fst (InitGLFW e s) \<and> framebuffer_status e \<noteq> GL_FRAMEBUFFER_COMPLETE \<longrightarrow>
      last (trace (snd (UploadToGL e rgb w h out ex wp s))) =
        Call ''glCheckFramebufferStatus'' [E GL_FRAMEBUFFER])"
  using UploadToGL_init_fails [of e s rgb w h out ex wp]
    UploadToGL_incomplete [of e s rgb w h out ex wp]
  by (cases "fst (InitGLFW e s)") auto

theorem UploadToGL_abort_leaves_output_witness:
  "\<not> fst (InitGLFW env_no_glad world0) \<and>
   UploadToGL env_no_glad [0, 0, 0] 1 1 [1, 2, 3, 4] 1 1 world0 =
     ([1, 2, 3, 4], snd (InitGLFW env_no_glad world0)) \<and>
   fst (InitGLFW env_incomplete world0) \<and>
   framebuffer_status env_incomplete \<noteq> GL_FRAMEBUFFER_COMPLETE \<and>
   fst (UploadToGL env_incomplete [0, 0, 0] 1 1 [1, 2, 3, 4] 1 1 world0) = [1, 2, 3, 4] \<and>
   last (trace (snd (UploadToGL env_incomplete [0, 0, 0] 1 1 [1, 2, 3, 4] 1 1 world0))) =
     Call ''glCheckFramebufferStatus'' [E GL_FRAMEBUFFER]"
proof -
  have st: "framebuffer_status env_incomplete \<noteq> GL_FRAMEBUFFER_COMPLETE"
    by (simp add: env_incomplete_def)
  show ?thesis
    using UploadToGL_abort_leaves_output [of env_no_glad world0 "[0, 0, 0]" 1 1 "[1, 2, 3, 4]" 1 1]
      UploadToGL_abort_leaves_output [of env_incomplete world0 "[0, 0, 0]" 1 1 "[1, 2, 3, 4]" 1 1]
      st
    by (simp add: InitGLFW_world0 prod_eq_iff)
qed

text \<open>
  C2 fails on the code. In a fresh process whose driver reports the framebuffer
  unsupported, \<^verbatim>\<open>UploadToGL\<close> returns with the two textures (names 3 and 5) and the
  framebuffer (name 4) that it created still held by the context; the same call with a
  complete framebuffer leaves no texture, framebuffer or program behind.
\<close>

theorem UploadToGL_incomplete_keeps_objects:
  "map_option textures
     (current_context (snd (UploadToGL env_incomplete [0, 0, 0] 1 1 [0, 0, 0, 0] 1 1 world0))) =
     Some {3, 5} \<and>
   map_option framebuffers
     (current_context (snd (UploadToGL env_incomplete [0, 0, 0] 1 1 [0, 0, 0, 0] 1 1 world0))) =
     Some {4} \<and>
   map_option textures
     (current_context (snd (UploadToGL env_ok [0, 0, 0] 1 1 [0, 0, 0, 0] 1 1 world0))) = Some {} \<and>
   map_option framebuffers
     (current_context (snd (UploadToGL env_ok [0, 0, 0] 1 1 [0, 0, 0, 0] 1 1 world0))) = Some {} \<and>
   map_option programs
     (current_context (snd (UploadToGL env_ok [0, 0, 0] 1 1 [0, 0, 0, 0] 1 1 world0))) =
     Some Map.empty"
proof -
  obtain c where c: "current_context (InitFullscreenQuad world_ready) = Some c"
    "names_used c = 2" "textures c = {}" "framebuffers c = {}" "programs c = Map.empty"
    using world_ready_quad(1) by blast
  have cur: "current world_ready = gWindow world_ready"
    by (simp add: world_ready_eq)
  have st: "framebuffer_status env_incomplete \<noteq> GL_FRAMEBUFFER_COMPLETE"
    "framebuffer_status env_ok = GL_FRAMEBUFFER_COMPLETE"
    by (simp_all add: env_incomplete_def env_ok_def)
  have a: "\<exists>c'. current_context
        (snd (UploadToGL env_incomplete [0, 0, 0] 1 1 [0, 0, 0, 0] 1 1 world0)) = Some c' \<and>
      textures c' = {3, 5} \<and> framebuffers c' = {4}"
    using UploadToGL_incomplete_context [of env_incomplete world0 c "[0, 0, 0]" 1 1 "[0, 0, 0, 0]" 1 1]
      st(1) cur c
    by (auto simp add: InitGLFW_world0)
  have b: "\<exists>c'. current_context
        (snd (UploadToGL env_ok [0, 0, 0] 1 1 [0, 0, 0, 0] 1 1 world0)) = Some c' \<and>
      textures c' = {} \<and> framebuffers c' = {} \<and> programs c' = Map.empty"
    using UploadToGL_complete_context [of env_ok world0 c "[0, 0, 0]" 1 1 "[0, 0, 0, 0]" 1 1]
      st(2) cur c
    by (auto simp add: InitGLFW_world0)
  show ?thesis using a b by auto
qed

text \<open>
  C3 (as amended). \<^verbatim>\<open>InitGLFW\<close> is idempotent once it has succeeded: when the context is
  already initialised a call returns true and changes nothing, and when a call returns
  true, a further call in succession (whatever GLFW and glad would answer) returns true
  and leaves the state of the first call as it is. After a call that returned false the
  context is not ready, and the next call attempts the initialisation again: its first
  call is \<^verbatim>\<open>glfwInit\<close>.
\<close>

theorem InitGLFW_idempotent_once_ready:
  "(gGLReady s \<longrightarrow> InitGLFW e s = (True, s)) \<and>
   (fst (InitGLFW e s) \<longrightarrow>
      InitGLFW e' (snd (InitGLFW e s)) = (True, snd (InitGLFW e s))) \<and>
   (\<not> fst (InitGLFW e s) \<longrightarrow>
      \<not> gGLReady (snd (InitGLFW e s)) \<and>
      (\<exists>rest. trace (snd (InitGLFW e' (snd (InitGLFW e s)))) =
         trace (snd (InitGLFW e s)) @ Call ''glfwInit'' [] # rest))"
proof -
  have retry: "\<not> gGLReady (snd (InitGLFW e s)) \<and>
      (\<exists>rest. trace (snd (InitGLFW e' (snd (InitGLFW e s)))) =
         trace (snd (InitGLFW e s)) @ Call ''glfwInit'' [] # rest)"
    if "\<not> fst (InitGLFW e s)"
    using InitGLFW_failure_not_ready [OF that]
      InitGLFW_starts_with_glfwInit [OF InitGLFW_failure_not_ready [OF that], of e']
    by simp
  show ?thesis
    using InitGLFW_ready [of s e] InitGLFW_success_ready [of e s]
      InitGLFW_ready [of "snd (InitGLFW e s)" e'] retry
    by blast
qed

theorem InitGLFW_idempotent_once_ready_witness:
  "fst (InitGLFW env_ok world0) \<and>
   InitGLFW env_no_glad (snd (InitGLFW env_ok world0)) = (True, snd (InitGLFW env_ok world0)) \<and>
   gGLReady world_ready \<and>
   InitGLFW env_no_glad world_ready = (True, world_ready) \<and>
   \<not> fst (InitGLFW env_no_glad world0) \<and>
   \<not> gGLReady (snd (InitGLFW env_no_glad world0)) \<and>
   (\<exists>rest. trace (snd (InitGLFW env_ok (snd (InitGLFW env_no_glad world0)))) =
      trace (snd (InitGLFW env_no_glad world0)) @ Call ''glfwInit'' [] # rest)"
proof -
  have r: "gGLReady world_ready"
    by (simp add: world_ready_eq)
  show ?thesis
    using InitGLFW_idempotent_once_ready [of world0 env_ok env_no_glad]
      InitGLFW_idempotent_once_ready [of world_ready env_no_glad env_ok]
      InitGLFW_idempotent_once_ready [of world0 env_no_glad env_ok] r
    by (simp add: InitGLFW_world0)
qed

text \<open>
  C3 as stated fails: in a fresh process in which glad cannot load the entry points, the
  first call returns false with window 1 stored, and a second call in succession creates
  window 2 and stores it; two calls are not equivalent to one.
\<close>

theorem InitGLFW_twice_differs:
  "fst (InitGLFW env_no_glad world0) = False \<and>
   gWindow (snd (InitGLFW env_no_glad world0)) = 1 \<and>
   gWindow (snd (InitGLFW env_no_glad (snd (InitGLFW env_no_glad world0)))) = 2 \<and>
   InitGLFW env_no_glad (snd (InitGLFW env_no_glad world0)) \<noteq> InitGLFW env_no_glad world0"
  by (simp add: InitGLFW_def glfw_defs Let_def env_no_glad_def env_ok_def world0_def call_def)

text \<open>
  C4 (as amended). With a current context, the shader constructor writes to the standard
  output \<open>cout\<close>, after what the loader printed: for a vertex stage that failed to compile
  the line \<^verbatim>\<open>SHADER_COMPILATION_ERROR for: VERTEX\<close> and the first 1023 characters of the
  log (a buffer of 1024 bytes with its terminating zero); the same for the fragment stage
  with \<^verbatim>\<open>FRAGMENT\<close>; and, when the compiler shares the two \<^verbatim>\<open>"PROGRAM"\<close> literals, for a
  failed link \<^verbatim>\<open>SHADER_LINKING_ERROR for: PROGRAM\<close> and the log. Nothing is written to the
  standard error channel. Execution does not halt: the constructor runs to its last call
  and returns the name of the program it created, whatever the results, and
  \<^verbatim>\<open>UploadToGL\<close> goes on to draw.
\<close>

theorem Shader_failures_reported_on_cout:
  assumes "current_context s = Some c"
  shows "(\<exists>rest. cout (snd (Shader e vf ff s)) =
            cout s @ loader_output e vf @ loader_output e ff @
            stage_diagnostic e GL_VERTEX_SHADER ''VERTEX'' (c_str (loaded e vf)) @
            stage_diagnostic e GL_FRAGMENT_SHADER ''FRAGMENT'' (c_str (loaded e ff)) @ rest \<and>
          (literals_pooled e \<longrightarrow> rest = link_diagnostic e)) \<and>
         cerr (snd (Shader e vf ff s)) = cerr s \<and>
         fst (Shader e vf ff s) = names_used c + 3 \<and>
         lookup_program (snd (Shader e vf ff s)) (names_used c + 3) =
           Some \<lparr>pr_attached = [names_used c + 1, names_used c + 2],
                 pr_linked = fst (link_result e), pr_log = snd (link_result e)\<rparr> \<and>
         last (trace (snd (Shader e vf ff s))) = Call ''glDeleteShader'' [U (names_used c + 2)] \<and>
         (fst (InitGLFW e s) \<and> framebuffer_status e = GL_FRAMEBUFFER_COMPLETE \<longrightarrow>
            Call ''glDrawArrays'' [E GL_TRIANGLES, I 0, I 6]
              \<in> set (new_calls s (snd (UploadToGL e rgb w h out ex wp s))) \<and>
            cerr (snd (UploadToGL e rgb w h out ex wp s)) = cerr s)"
  using Shader_cout [OF assms, of e vf ff] Shader_ID [OF assms, of e vf ff]
    Shader_objects(3) [OF assms, of e vf ff] Shader_last_call [OF assms, of e vf ff]
    UploadToGL_complete_draws [of e s rgb w h out ex wp] UploadToGL_cerr [of e rgb w h out ex wp s]
  by simp

theorem Shader_failures_reported_on_cout_witness:
  "current_context world_ready = Some empty_context \<and>
   cout (snd (Shader env_ok ''v'' ''f'' world_ready)) =
     ''file not found: v'' @ endl @ ''file not found: f'' @ endl @
     ''SHADER_COMPILATION_ERROR for: VERTEX'' @ endl @ ''no main'' @ endl @
     ''SHADER_COMPILATION_ERROR for: FRAGMENT'' @ endl @ ''no main'' @ endl @
     ''SHADER_LINKING_ERROR for: PROGRAM'' @ endl @ ''link failed'' @ endl \<and>
   fst (Shader env_ok ''v'' ''f'' world_ready) = 3 \<and>
   Call ''glDrawArrays'' [E GL_TRIANGLES, I 0, I 6]
     \<in> set (new_calls world_ready
              (snd (UploadToGL env_ok [0, 0, 0] 1 1 [0, 0, 0, 0] 1 1 world_ready)))"
proof -
  have r: "fst (InitGLFW env_ok world_ready)"
    by (simp add: InitGLFW_ready world_ready_eq)
  have st: "framebuffer_status env_ok = GL_FRAMEBUFFER_COMPLETE"
    by (simp add: env_ok_def)
  have e: "cout world_ready = []"
    by (simp add: world_ready_eq)
  show ?thesis
    using Shader_failures_reported_on_cout
      [OF world_ready_context, of env_ok "''v''" "''f''" "[0, 0, 0]" 1 1 "[0, 0, 0, 0]" 1 1] r st e
    by (simp add: world_ready_context env_ok_loaded env_ok_diagnostics c_str_def
        empty_context_def)
qed

text \<open>
  C4 as stated fails in the channel: with a vertex stage that does not compile, the
  standard error channel stays empty and the diagnostics are on the standard output.
\<close>

theorem Shader_failures_not_on_cerr:
  "\<not> fst (compile_result env_ok GL_VERTEX_SHADER (c_str (loaded env_ok ''v''))) \<and>
   cerr (snd (Shader env_ok ''v'' ''f'' world_ready)) = [] \<and>
   cout (snd (Shader env_ok ''v'' ''f'' world_ready)) =
     ''file not found: v'' @ endl @ ''file not found: f'' @ endl @
     ''SHADER_COMPILATION_ERROR for: VERTEX'' @ endl @ ''no main'' @ endl @
     ''SHADER_COMPILATION_ERROR for: FRAGMENT'' @ endl @ ''no main'' @ endl @
     ''SHADER_LINKING_ERROR for: PROGRAM'' @ endl @ ''link failed'' @ endl"
proof -
  have v: "\<not> fst (compile_result env_ok GL_VERTEX_SHADER [])"
    by (simp add: env_ok_def)
  have e: "cerr world_ready = []" "cout world_ready = []"
    by (simp_all add: world_ready_eq)
  show ?thesis
    using Shader_cout [OF world_ready_context, of env_ok "''v''" "''f''"] v e
    by (simp add: env_ok_loaded env_ok_diagnostics c_str_def)
qed

text \<open>
  C5. Leaving the status queries aside, the calls of the shader constructor are, in
  order: create, source and compile the vertex shader; create, source and compile the
  fragment shader; create the program, attach both shaders and link; delete the vertex
  shader and the fragment shader. It returns the name of the program, which holds the
  link result, and the two shader names are gone; this is so after a successful link as
  after a failed one.
\<close>

theorem Shader_compiles_links_deletes:
  assumes "current_context s = Some c"
  shows "filter (\<lambda>c. \<not> is_query c) (new_calls s (snd (Shader e vf ff s))) =
           shader_steps (names_used c) (c_str (loaded e vf)) (c_str (loaded e ff)) \<and>
         fst (Shader e vf ff s) = names_used c + 3 \<and>
         lookup_shader (snd (Shader e vf ff s)) (names_used c + 1) = None \<and>
         lookup_shader (snd (Shader e vf ff s)) (names_used c + 2) = None \<and>
         lookup_program (snd (Shader e vf ff s)) (names_used c + 3) =
           Some \<lparr>pr_attached = [names_used c + 1, names_used c + 2],
                 pr_linked = fst (link_result e), pr_log = snd (link_result e)\<rparr>"
  using Shader_steps [OF assms] Shader_ID [OF assms] Shader_objects [OF assms] by simp

theorem Shader_compiles_links_deletes_witness:
  "current_context world_ready = Some empty_context \<and>
   filter (\<lambda>c. \<not> is_query c) (new_calls world_ready (snd (Shader env_ok ''v'' ''f'' world_ready))) =
     shader_steps 0 [] [] \<and>
   fst (Shader env_ok ''v'' ''f'' world_ready) = 3 \<and>
   lookup_shader (snd (Shader env_ok ''v'' ''f'' world_ready)) 1 = None \<and>
   lookup_program (snd (Shader env_ok ''v'' ''f'' world_ready)) 3 =
     Some \<lparr>pr_attached = [1, 2], pr_linked = False, pr_log = ''link failed''\<rparr>"
proof -
  have l: "link_result env_ok = (False, ''link failed'')"
    by (simp add: env_ok_def)
  have n: "names_used empty_context = 0"
    by (simp add: empty_context_def)
  show ?thesis
    using Shader_compiles_links_deletes [OF world_ready_context, of env_ok "''v''" "''f''"]
    by (simp add: world_ready_context env_ok_loaded c_str_def n l)
qed

text \<open>
  C6. \<^verbatim>\<open>InitFullscreenQuad\<close> does nothing when \<open>quadVAO\<close> is not zero, and with a current
  context a second call in succession changes nothing. Its first effective call makes
  exactly the calls \<open>quad_calls\<close>: it uploads the 24 floats of \<open>quadVertices\<close>, which are 6
  vertices at a stride of 4 floats; attribute 0 has 2 float components at offset 0,
  attribute 1 has 2 float components at an offset of 2 floats, both with a stride of 4
  floats. Read that way the positions are two counter-clockwise triangles whose union is
  the square from \<open>-1\<close> to \<open>1\<close> in both coordinates, and the UVs are the matching corners of
  the unit square.
\<close>

theorem InitFullscreenQuad_once_two_triangles:
  "(quadVAO s \<noteq> 0 \<longrightarrow> InitFullscreenQuad s = s) \<and>
   (current_context s = Some c \<longrightarrow>
      InitFullscreenQuad (InitFullscreenQuad s) = InitFullscreenQuad s) \<and>
   (quadVAO s = 0 \<and> current_context s = Some c \<longrightarrow>
      quadVAO (InitFullscreenQuad s) = names_used c + 1 \<and>
      quadVBO (InitFullscreenQuad s) = names_used c + 2 \<and>
      new_calls s (InitFullscreenQuad s) = quad_calls (names_used c + 1) (names_used c + 2)) \<and>
   length quadVertices * sizeof_float = 6 * (4 * sizeof_float) \<and>
   quad_positions = [(-1, 1), (-1, -1), (1, -1), (-1, 1), (1, -1), (1, 1)] \<and>
   map (attribute quadVertices (4 * sizeof_float) (2 * sizeof_float) 2) [0..<6] =
     [[0, 1], [0, 0], [1, 0], [0, 1], [1, 0], [1, 1]] \<and>
   0 < orient (quad_positions ! 0) (quad_positions ! 1) (quad_positions ! 2) \<and>
   0 < orient (quad_positions ! 3) (quad_positions ! 4) (quad_positions ! 5) \<and>
   ((inside (quad_positions ! 0) (quad_positions ! 1) (quad_positions ! 2) (x, y) \<or>
     inside (quad_positions ! 3) (quad_positions ! 4) (quad_positions ! 5) (x, y)) =
    (-1 \<le> x \<and> x \<le> 1 \<and> -1 \<le> y \<and> y \<le> 1))"
proof -
  have len: "length quadVertices * sizeof_float = 6 * (4 * sizeof_float)"
    by (simp add: quadVertices_def)
  have ccw: "0 < orient (quad_positions ! 0) (quad_positions ! 1) (quad_positions ! 2)"
    "0 < orient (quad_positions ! 3) (quad_positions ! 4) (quad_positions ! 5)"
    using quad_ccw by (simp_all add: quad_positions_eq)
  have cover: "(inside (quad_positions ! 0) (quad_positions ! 1) (quad_positions ! 2) (x, y) \<or>
     inside (quad_positions ! 3) (quad_positions ! 4) (quad_positions ! 5) (x, y)) =
    (-1 \<le> x \<and> x \<le> 1 \<and> -1 \<le> y \<and> y \<le> 1)"
    using quad_covers [of x y] by (simp add: quad_positions_eq)
  show ?thesis
    using InitFullscreenQuad_guard [of s] InitFullscreenQuad_twice [of s c]
      InitFullscreenQuad_first(1-3) [of s c] len quad_positions_eq quad_uvs ccw cover
    by blast
qed

theorem InitFullscreenQuad_once_two_triangles_witness:
  "quadVAO world_ready = 0 \<and> current_context world_ready = Some empty_context \<and>
   quadVAO (InitFullscreenQuad world_ready) = 1 \<and>
   quadVBO (InitFullscreenQuad world_ready) = 2 \<and>
   new_calls world_ready (InitFullscreenQuad world_ready) = quad_calls 1 2 \<and>
   InitFullscreenQuad (InitFullscreenQuad world_ready) = InitFullscreenQuad world_ready \<and>
   quadVAO world_drawn \<noteq> 0 \<and> InitFullscreenQuad world_drawn = world_drawn \<and>
   inside (quad_positions ! 0) (quad_positions ! 1) (quad_positions ! 2) (1/2, -3/4)"
proof -
  have h: "quadVAO world_ready = 0" "current_context world_ready = Some empty_context"
    by (simp_all add: world_ready_eq current_context_def)
  have n: "names_used empty_context = 0"
    by (simp add: empty_context_def)
  have p: "inside (quad_positions ! 0) (quad_positions ! 1) (quad_positions ! 2) (1/2, -3/4)"
    by (simp add: quad_positions_eq inside_def orient_def)
  have d: "quadVAO world_drawn \<noteq> 0"
    by (simp add: world_drawn_globals)
  show ?thesis
    using InitFullscreenQuad_once_two_triangles [of world_ready empty_context "1/2" "-3/4"]
      InitFullscreenQuad_once_two_triangles [of world_drawn empty_context "1/2" "-3/4"] h n p d
    by (simp add: numeral_2_eq_2)
qed

text \<open>
  C7. For a path that cannot be opened the loader returns the empty string and prints
  \<^verbatim>\<open>file not found:\<close> with the path. The shader constructor does not stop there: with
  the vertex (or the fragment) file missing it makes all its calls, handing the empty
  source to \<^verbatim>\<open>glShaderSource\<close> and compiling it, and returns the program name; when the
  compiler rejects the empty source, the compilation error of that stage is printed.
\<close>

theorem missing_file_is_not_fatal:
  "(files e f = None \<longrightarrow>
      get_file_contents e f s = ([], s\<lparr>cout := cout s @ ''file not found: '' @ f @ endl\<rparr>)) \<and>
   (files e vf = None \<and> current_context s = Some c \<longrightarrow>
      fst (Shader e vf ff s) = names_used c + 3 \<and>
      filter (\<lambda>c. \<not> is_query c) (new_calls s (snd (Shader e vf ff s))) =
        shader_steps (names_used c) [] (c_str (loaded e ff)) \<and>
      (\<exists>pre post. cout (snd (Shader e vf ff s)) = pre @ ''file not found: '' @ vf @ endl @ post) \<and>
      (\<not> fst (compile_result e GL_VERTEX_SHADER []) \<longrightarrow>
         (\<exists>pre post. cout (snd (Shader e vf ff s)) =
            pre @ ''SHADER_COMPILATION_ERROR for: '' @ ''VERTEX'' @ endl @
            take 1023 (snd (compile_result e GL_VERTEX_SHADER [])) @ endl @ post))) \<and>
   (files e ff = None \<and> current_context s = Some c \<longrightarrow>
      fst (Shader e vf ff s) = names_used c + 3 \<and>
      filter (\<lambda>c. \<not> is_query c) (new_calls s (snd (Shader e vf ff s))) =
        shader_steps (names_used c) (c_str (loaded e vf)) [] \<and>
      (\<exists>pre post. cout (snd (Shader e vf ff s)) = pre @ ''file not found: '' @ ff @ endl @ post) \<and>
      (\<not> fst (compile_result e GL_FRAGMENT_SHADER []) \<longrightarrow>
         (\<exists>pre post. cout (snd (Shader e vf ff s)) =
            pre @ ''SHADER_COMPILATION_ERROR for: '' @ ''FRAGMENT'' @ endl @
            take 1023 (snd (compile_result e GL_FRAGMENT_SHADER [])) @ endl @ post)))"
  using get_file_contents_missing [of e f s] Shader_missing_vertex [of e vf s c ff]
    Shader_missing_fragment [of e ff s c vf]
  by blast

theorem missing_file_is_not_fatal_witness:
  "files env_ok ''v'' = None \<and> files env_ok ''f'' = None \<and>
   current_context world_ready = Some empty_context \<and>
   get_file_contents env_ok ''v'' world_ready =
     ([], world_ready\<lparr>cout := ''file not found: v'' @ endl\<rparr>) \<and>
   fst (Shader env_ok ''v'' ''f'' world_ready) = 3 \<and>
   filter (\<lambda>c. \<not> is_query c) (new_calls world_ready (snd (Shader env_ok ''v'' ''f'' world_ready))) =
     shader_steps 0 [] [] \<and>
   \<not> fst (compile_result env_ok GL_VERTEX_SHADER []) \<and>
   (\<exists>pre post. cout (snd (Shader env_ok ''v'' ''f'' world_ready)) =
      pre @ ''SHADER_COMPILATION_ERROR for: '' @ ''VERTEX'' @ endl @ ''no main'' @ endl @ post) \<and>
   \<not> fst (compile_result env_ok GL_FRAGMENT_SHADER []) \<and>
   (\<exists>pre post. cout (snd (Shader env_ok ''v'' ''f'' world_ready)) =
      pre @ ''SHADER_COMPILATION_ERROR for: '' @ ''FRAGMENT'' @ endl @ ''no main'' @ endl @ post)"
proof -
  have f: "files env_ok ''v'' = None" "files env_ok ''f'' = None"
    "\<not> fst (compile_result env_ok GL_VERTEX_SHADER [])"
    "snd (compile_result env_ok GL_VERTEX_SHADER []) = ''no main''"
    "\<not> fst (compile_result env_ok GL_FRAGMENT_SHADER [])"
    "snd (compile_result env_ok GL_FRAGMENT_SHADER []) = ''no main''"
    by (simp_all add: env_ok_def)
  have n: "names_used empty_context = 0"
    by (simp add: empty_context_def)
  have e: "cout world_ready = []"
    by (simp add: world_ready_eq)
  show ?thesis
    using missing_file_is_not_fatal [of env_ok "''v''" world_ready "''v''" empty_context "''f''"]
      f n e world_ready_context
    by (simp add: env_ok_loaded)
qed

text \<open>
  C8. \<^verbatim>\<open>CleanupGLFW\<close> changes nothing when the context is not initialised, so a second
  call in succession changes nothing; after it the context is not ready, and a following
  \<^verbatim>\<open>InitGLFW\<close> does not return early: it calls \<^verbatim>\<open>glfwInit\<close> again, and when GLFW and
  glad succeed it runs the whole initialisation sequence, on a new window with a new
  context.
\<close>

theorem CleanupGLFW_repeatable_then_reinit:
  "(\<not> gGLReady s \<longrightarrow> CleanupGLFW s = s) \<and>
   CleanupGLFW (CleanupGLFW s) = CleanupGLFW s \<and>
   \<not> gGLReady (CleanupGLFW s) \<and>
   (\<exists>rest. trace (snd (InitGLFW e (CleanupGLFW s))) =
             trace (CleanupGLFW s) @ Call ''glfwInit'' [] # rest) \<and>
   (glfwInit_ok e \<and> glfwCreateWindow_ok e \<and> gladLoadGLLoader_ok e \<longrightarrow>
      fst (InitGLFW e (CleanupGLFW s)) \<and>
      gGLReady (snd (InitGLFW e (CleanupGLFW s))) \<and>
      gWindow (snd (InitGLFW e (CleanupGLFW s))) = Suc (windows_created s) \<and>
      current_context (snd (InitGLFW e (CleanupGLFW s))) = Some empty_context \<and>
      trace (snd (InitGLFW e (CleanupGLFW s))) =
        trace (CleanupGLFW s) @ init_sequence (Suc (windows_created s)))"
proof -
  have nr: "\<not> gGLReady (CleanupGLFW s)" by (rule CleanupGLFW_clears)
  have wc: "windows_created (CleanupGLFW s) = windows_created s"
    by (simp add: CleanupGLFW_def glfw_defs Let_def)
  have twice: "CleanupGLFW (CleanupGLFW s) = CleanupGLFW s"
    using nr by (rule CleanupGLFW_not_ready)
  have first: "\<exists>rest. trace (snd (InitGLFW e (CleanupGLFW s))) =
             trace (CleanupGLFW s) @ Call ''glfwInit'' [] # rest"
    using nr by (rule InitGLFW_starts_with_glfwInit)
  have full: "fst (InitGLFW e (CleanupGLFW s)) \<and>
      gGLReady (snd (InitGLFW e (CleanupGLFW s))) \<and>
      gWindow (snd (InitGLFW e (CleanupGLFW s))) = Suc (windows_created s) \<and>
      current_context (snd (InitGLFW e (CleanupGLFW s))) = Some empty_context \<and>
      trace (snd (InitGLFW e (CleanupGLFW s))) =
        trace (CleanupGLFW s) @ init_sequence (Suc (windows_created s))"
    if ok: "glfwInit_ok e" "glfwCreateWindow_ok e" "gladLoadGLLoader_ok e"
    using InitGLFW_full [OF nr _ ok(2) ok(3)] ok(1) wc by (simp add: current_context_def)
  show ?thesis using CleanupGLFW_not_ready twice nr first full by blast
qed

theorem CleanupGLFW_repeatable_then_reinit_witness:
  "CleanupGLFW world0 = world0 \<and>
   gGLReady world_ready \<and> \<not> gGLReady (CleanupGLFW world_ready) \<and>
   CleanupGLFW (CleanupGLFW world_ready) = CleanupGLFW world_ready \<and>
   fst (InitGLFW env_ok (CleanupGLFW world_ready)) \<and>
   gWindow (snd (InitGLFW env_ok (CleanupGLFW world_ready))) = 2 \<and>
   trace (snd (InitGLFW env_ok (CleanupGLFW world_ready))) =
     trace (CleanupGLFW world_ready) @ init_sequence 2"
proof -
  have ready: "gGLReady world_ready" and created: "windows_created world_ready = 1"
    by (simp_all add: world_ready_def InitGLFW_def glfw_defs Let_def env_ok_def world0_def)
  have fresh: "\<not> gGLReady world0"
    by (simp add: world0_def)
  have ok: "glfwInit_ok env_ok \<and> glfwCreateWindow_ok env_ok \<and> gladLoadGLLoader_ok env_ok"
    by (simp add: env_ok_def)
  show ?thesis
    using CleanupGLFW_repeatable_then_reinit [of world0 env_ok]
      CleanupGLFW_repeatable_then_reinit [of world_ready env_ok] ready created fresh ok
    by (simp add: eval_nat_numeral)
qed

text \<open>
  C9. Once \<open>quadVAO\<close> is not zero, \<^verbatim>\<open>CleanupGLFW\<close>, \<^verbatim>\<open>InitGLFW\<close>,
  \<^verbatim>\<open>InitFullscreenQuad\<close> and \<^verbatim>\<open>UploadToGL\<close> all leave it as it is. So in a sequence
  \<^verbatim>\<open>CleanupGLFW\<close>, \<^verbatim>\<open>InitGLFW\<close> (succeeding), \<^verbatim>\<open>UploadToGL\<close> that starts with the context
  ready: the cleanup destroys every context, the handle keeps its value, no vertex array
  is generated (the new current context has none after the call), and when the
  framebuffer is complete the draw is made with the old handle bound.
\<close>

theorem quadVAO_never_reset:
  "(quadVAO s \<noteq> 0 \<longrightarrow>
      quadVAO (CleanupGLFW s) = quadVAO s \<and>
      quadVAO (snd (InitGLFW e s)) = quadVAO s \<and>
      quadVAO (InitFullscreenQuad s) = quadVAO s \<and>
      quadVAO (snd (UploadToGL e rgb w h out ex wp s)) = quadVAO s) \<and>
   (quadVAO s \<noteq> 0 \<and> gGLReady s \<and> fst (InitGLFW e1 (CleanupGLFW s)) \<longrightarrow>
      contexts (CleanupGLFW s) = Map.empty \<and>
      quadVAO (snd (UploadToGL e2 rgb w h out ex wp (snd (InitGLFW e1 (CleanupGLFW s))))) =
        quadVAO s \<and>
      current_vertex_arrays
        (snd (UploadToGL e2 rgb w h out ex wp (snd (InitGLFW e1 (CleanupGLFW s))))) = {} \<and>
      filter (\<lambda>c. call_name c \<in> vao_draw_names)
        (new_calls s
           (snd (UploadToGL e2 rgb w h out ex wp (snd (InitGLFW e1 (CleanupGLFW s)))))) =
        (if framebuffer_status e2 = GL_FRAMEBUFFER_COMPLETE
         then [Call ''glBindVertexArray'' [U (quadVAO s)],
               Call ''glDrawArrays'' [E GL_TRIANGLES, I 0, I 6],
               Call ''glBindVertexArray'' [U 0]]
         else []))"
proof -
  have a: "quadVAO (CleanupGLFW s) = quadVAO s \<and>
      quadVAO (snd (InitGLFW e s)) = quadVAO s \<and>
      quadVAO (InitFullscreenQuad s) = quadVAO s \<and>
      quadVAO (snd (UploadToGL e rgb w h out ex wp s)) = quadVAO s"
    if "quadVAO s \<noteq> 0"
    using that by (simp add: InitFullscreenQuad_quadVAO UploadToGL_quadVAO)
  have b: "contexts (CleanupGLFW s) = Map.empty \<and>
      quadVAO (snd (UploadToGL e2 rgb w h out ex wp (snd (InitGLFW e1 (CleanupGLFW s))))) =
        quadVAO s \<and>
      current_vertex_arrays
        (snd (UploadToGL e2 rgb w h out ex wp (snd (InitGLFW e1 (CleanupGLFW s))))) = {} \<and>
      filter (\<lambda>c. call_name c \<in> vao_draw_names)
        (new_calls s
           (snd (UploadToGL e2 rgb w h out ex wp (snd (InitGLFW e1 (CleanupGLFW s)))))) =
        (if framebuffer_status e2 = GL_FRAMEBUFFER_COMPLETE
         then [Call ''glBindVertexArray'' [U (quadVAO s)],
               Call ''glDrawArrays'' [E GL_TRIANGLES, I 0, I 6],
               Call ''glBindVertexArray'' [U 0]]
         else [])"
    if q: "quadVAO s \<noteq> 0" and r: "gGLReady s" and i: "fst (InitGLFW e1 (CleanupGLFW s))"
  proof -
    let ?s1 = "CleanupGLFW s"
    let ?s2 = "snd (InitGLFW e1 ?s1)"
    let ?s3 = "snd (UploadToGL e2 rgb w h out ex wp ?s2)"
    have t1: "trace ?s1 =
        trace s @ [Call ''glfwDestroyWindow'' [U (gWindow s)], Call ''glfwTerminate'' []]"
      using r by (rule CleanupGLFW_ready_trace)
    have empty: "contexts ?s1 = Map.empty"
      using CleanupGLFW_ready [OF r] by simp
    note init = InitGLFW_success_fresh [OF CleanupGLFW_clears i]
    have s2: "gGLReady ?s2" "quadVAO ?s2 = quadVAO s" "current ?s2 = gWindow ?s2"
      "current_vertex_arrays ?s2 = {}"
      "trace ?s2 = trace ?s1 @ init_sequence (Suc (windows_created ?s1))"
      by (simp_all add: init current_vertex_arrays_def current_context_def empty_context_def)
    have q2: "quadVAO ?s2 \<noteq> 0" using q s2(2) by simp
    obtain L where L: "trace ?s3 = trace ?s2 @ L"
      "filter (\<lambda>c. call_name c \<in> vao_draw_names) L =
         (if framebuffer_status e2 = GL_FRAMEBUFFER_COMPLETE
          then [Call ''glBindVertexArray'' [U (quadVAO ?s2)],
                Call ''glDrawArrays'' [E GL_TRIANGLES, I 0, I 6],
                Call ''glBindVertexArray'' [U 0]]
          else [])"
      using UploadToGL_ready_trace [OF s2(1) q2, of e2 rgb w h out ex wp] by blast
    have "trace ?s3 =
        trace s @ ([Call ''glfwDestroyWindow'' [U (gWindow s)], Call ''glfwTerminate'' []] @
          init_sequence (Suc (windows_created ?s1)) @ L)"
      by (simp add: L(1) s2(5) t1)
    then have nc: "new_calls s ?s3 =
        [Call ''glfwDestroyWindow'' [U (gWindow s)], Call ''glfwTerminate'' []] @
          init_sequence (Suc (windows_created ?s1)) @ L"
      by (rule new_calls_eqI)
    have f: "filter (\<lambda>c. call_name c \<in> vao_draw_names) (new_calls s ?s3) =
        filter (\<lambda>c. call_name c \<in> vao_draw_names) L"
      by (simp add: nc init_sequence_def vao_draw_names_def)
    have v: "current_vertex_arrays ?s3 = {}"
      using UploadToGL_ready_vertex_arrays [OF s2(1) q2 s2(3), of e2 rgb w h out ex wp] s2(4)
      by simp
    have qq: "quadVAO ?s3 = quadVAO s"
      using UploadToGL_quadVAO [OF q2, of e2 rgb w h out ex wp] s2(2) by simp
    show ?thesis using empty qq v f L(2) s2(2) by simp
  qed
  show ?thesis using a b by blast
qed

theorem quadVAO_never_reset_witness:
  "quadVAO world_drawn = 1 \<and> gGLReady world_drawn \<and>
   fst (InitGLFW env_ok (CleanupGLFW world_drawn)) \<and>
   quadVAO (CleanupGLFW world_drawn) = 1 \<and>
   contexts (CleanupGLFW world_drawn) = Map.empty \<and>
   quadVAO (snd (UploadToGL env_ok [0, 0, 0] 1 1 [0, 0, 0, 0] 1 1
     (snd (InitGLFW env_ok (CleanupGLFW world_drawn))))) = 1 \<and>
   current_vertex_arrays (snd (UploadToGL env_ok [0, 0, 0] 1 1 [0, 0, 0, 0] 1 1
     (snd (InitGLFW env_ok (CleanupGLFW world_drawn))))) = {} \<and>
   filter (\<lambda>c. call_name c \<in> vao_draw_names)
     (new_calls world_drawn (snd (UploadToGL env_ok [0, 0, 0] 1 1 [0, 0, 0, 0] 1 1
        (snd (InitGLFW env_ok (CleanupGLFW world_drawn)))))) =
     [Call ''glBindVertexArray'' [U 1], Call ''glDrawArrays'' [E GL_TRIANGLES, I 0, I 6],
      Call ''glBindVertexArray'' [U 0]]"
proof -
  have ok: "glfwInit_ok env_ok" "glfwCreateWindow_ok env_ok" "gladLoadGLLoader_ok env_ok"
    "framebuffer_status env_ok = GL_FRAMEBUFFER_COMPLETE"
    by (simp_all add: env_ok_def)
  have i: "fst (InitGLFW env_ok (CleanupGLFW world_drawn))"
    using InitGLFW_full [OF CleanupGLFW_clears _ ok(2) ok(3), of world_drawn] ok(1) by simp
  show ?thesis
    using quadVAO_never_reset
      [of world_drawn env_ok "[0, 0, 0]" 1 1 "[0, 0, 0, 0]" 1 1 env_ok env_ok]
      world_drawn_globals i ok(4)
    by simp
qed

text \<open>
  C10 (as amended). \<^verbatim>\<open>InitGLFW\<close> is not atomic on failure: when glad fails after the
  window was created, the call returns false with \<open>gWindow\<close> set to the new window, which
  stays alive, and \<open>gGLReady\<close> false. \<^verbatim>\<open>CleanupGLFW\<close> in that state does nothing, so it
  does not destroy the window. The next \<^verbatim>\<open>InitGLFW\<close> that gets a window creates a second
  one and overwrites the stored handle, both windows being alive. If that call succeeds,
  a following \<^verbatim>\<open>CleanupGLFW\<close> passes only the second window to \<^verbatim>\<open>glfwDestroyWindow\<close>; the
  first one goes with the remaining windows that \<^verbatim>\<open>glfwTerminate\<close> destroys.
\<close>

theorem InitGLFW_not_atomic:
  assumes "\<not> gGLReady s" "glfw_up s \<or> glfwInit_ok e" "glfwCreateWindow_ok e"
    "\<not> gladLoadGLLoader_ok e"
  shows "\<not> fst (InitGLFW e s) \<and>
     gWindow (snd (InitGLFW e s)) = Suc (windows_created s) \<and>
     \<not> gGLReady (snd (InitGLFW e s)) \<and>
     contexts (snd (InitGLFW e s)) (Suc (windows_created s)) = Some empty_context \<and>
     CleanupGLFW (snd (InitGLFW e s)) = snd (InitGLFW e s) \<and>
     (glfwCreateWindow_ok e2 \<longrightarrow>
        gWindow (snd (InitGLFW e2 (snd (InitGLFW e s)))) = Suc (Suc (windows_created s)) \<and>
        contexts (snd (InitGLFW e2 (snd (InitGLFW e s)))) (Suc (windows_created s))
          = Some empty_context \<and>
        contexts (snd (InitGLFW e2 (snd (InitGLFW e s)))) (Suc (Suc (windows_created s)))
          = Some empty_context \<and>
        (gladLoadGLLoader_ok e2 \<longrightarrow>
           contexts (CleanupGLFW (snd (InitGLFW e2 (snd (InitGLFW e s))))) = Map.empty \<and>
           new_calls (snd (InitGLFW e2 (snd (InitGLFW e s))))
               (CleanupGLFW (snd (InitGLFW e2 (snd (InitGLFW e s))))) =
             [Call ''glfwDestroyWindow'' [U (Suc (Suc (windows_created s)))],
              Call ''glfwTerminate'' []]))"
proof -
  let ?s1 = "snd (InitGLFW e s)"
  note first = InitGLFW_glad_fails [OF assms]
  have s1: "\<not> gGLReady ?s1" "glfw_up ?s1" "windows_created ?s1 = Suc (windows_created s)"
    "contexts ?s1 = (contexts s)(Suc (windows_created s) \<mapsto> empty_context)"
    using assms(1) by (simp_all add: first)
  have a: "\<not> fst (InitGLFW e s) \<and> gWindow ?s1 = Suc (windows_created s) \<and> \<not> gGLReady ?s1 \<and>
     contexts ?s1 (Suc (windows_created s)) = Some empty_context"
    using assms(1) by (simp add: first)
  have b: "CleanupGLFW ?s1 = ?s1"
    using s1(1) by (rule CleanupGLFW_not_ready)
  have c: "gWindow (snd (InitGLFW e2 ?s1)) = Suc (Suc (windows_created s)) \<and>
        contexts (snd (InitGLFW e2 ?s1)) (Suc (windows_created s)) = Some empty_context \<and>
        contexts (snd (InitGLFW e2 ?s1)) (Suc (Suc (windows_created s))) = Some empty_context \<and>
        (gladLoadGLLoader_ok e2 \<longrightarrow>
           contexts (CleanupGLFW (snd (InitGLFW e2 ?s1))) = Map.empty \<and>
           new_calls (snd (InitGLFW e2 ?s1)) (CleanupGLFW (snd (InitGLFW e2 ?s1))) =
             [Call ''glfwDestroyWindow'' [U (Suc (Suc (windows_created s)))],
              Call ''glfwTerminate'' []])"
    if w: "glfwCreateWindow_ok e2"
  proof -
    note second = InitGLFW_window_created [OF s1(1) s1(2) w]
    have "gladLoadGLLoader_ok e2 \<Longrightarrow> gGLReady (snd (InitGLFW e2 ?s1))"
      by (simp add: second(3))
    from CleanupGLFW_ready [OF this] show ?thesis
      by (simp add: second s1)
  qed
  show ?thesis using a b c by blast
qed

theorem InitGLFW_not_atomic_witness:
  "\<not> fst (InitGLFW env_no_glad world0) \<and>
   gWindow (snd (InitGLFW env_no_glad world0)) = 1 \<and>
   CleanupGLFW (snd (InitGLFW env_no_glad world0)) = snd (InitGLFW env_no_glad world0) \<and>
   gWindow (snd (InitGLFW env_ok (snd (InitGLFW env_no_glad world0)))) = 2 \<and>
   contexts (snd (InitGLFW env_ok (snd (InitGLFW env_no_glad world0)))) 1 = Some empty_context \<and>
   contexts (snd (InitGLFW env_ok (snd (InitGLFW env_no_glad world0)))) 2 = Some empty_context \<and>
   new_calls (snd (InitGLFW env_ok (snd (InitGLFW env_no_glad world0))))
     (CleanupGLFW (snd (InitGLFW env_ok (snd (InitGLFW env_no_glad world0))))) =
     [Call ''glfwDestroyWindow'' [U 2], Call ''glfwTerminate'' []] \<and>
   contexts (CleanupGLFW (snd (InitGLFW env_ok (snd (InitGLFW env_no_glad world0))))) = Map.empty"
proof -
  have h: "\<not> gGLReady world0" "glfw_up world0 \<or> glfwInit_ok env_no_glad"
    "glfwCreateWindow_ok env_no_glad" "\<not> gladLoadGLLoader_ok env_no_glad"
    "glfwCreateWindow_ok env_ok" "windows_created world0 = 0" "gladLoadGLLoader_ok env_ok"
    by (simp_all add: world0_def env_no_glad_def env_ok_def)
  show ?thesis
    using InitGLFW_not_atomic [OF h(1-4), of env_ok] h(5,6,7) by (simp add: eval_nat_numeral)
qed

text \<open>
  C10 as stated fails in its middle part (the window is never destroyed by
  \<^verbatim>\<open>CleanupGLFW\<close>): the window left by a failed call is alive after the next, successful
  call and gone after the \<^verbatim>\<open>CleanupGLFW\<close> that follows it.
\<close>

theorem leaked_window_destroyed_by_later_cleanup:
  "contexts (snd (InitGLFW env_no_glad world0)) 1 = Some empty_context \<and>
   \<not> gGLReady (snd (InitGLFW env_no_glad world0)) \<and>
   contexts (snd (InitGLFW env_ok (snd (InitGLFW env_no_glad world0)))) 1 = Some empty_context \<and>
   contexts (CleanupGLFW (snd (InitGLFW env_ok (snd (InitGLFW env_no_glad world0))))) 1 = None"
  by (simp add: CleanupGLFW_def InitGLFW_def glfw_defs Let_def env_no_glad_def env_ok_def world0_def)

end
